theory Spec2Isabelle
  imports Complex_Main "HOL-Library.Sublist"
begin

section \<open>JavaScript values used by the story tools\<close>

text \<open>
  The story tools are JavaScript. Their documents are JSON objects whose fields may be
  absent; a field that the code reads behind \<open>?.\<close>, \<open>||\<close> or a truthiness test is an
  \<open>option\<close> here (with \<open>None\<close> for \<open>undefined\<close>), a field that it dereferences
  without a guard is a plain field. Numbers that the code uses as identifiers, chapter
  numbers and counts are integers.
\<close>

text \<open>Truthiness of an optional string (\<open>undefined\<close> and \<open>''\<close> are falsy) and of an
  optional number (\<open>undefined\<close> and \<open>0\<close> are falsy).\<close>

definition truthyStr :: "string option \<Rightarrow> bool" where
  "truthyStr s = (case s of None \<Rightarrow> False | Some t \<Rightarrow> t \<noteq> [])"

definition truthyNum :: "int option \<Rightarrow> bool" where
  "truthyNum n = (case n of None \<Rightarrow> False | Some k \<Rightarrow> k \<noteq> 0)"

text \<open>\<open>xs?.includes(x)\<close>: \<open>undefined\<close> (falsy) when the array is absent.\<close>

definition includesOpt :: "int list option \<Rightarrow> int \<Rightarrow> bool" where
  "includesOpt xs x = (case xs of None \<Rightarrow> False | Some ys \<Rightarrow> x \<in> set ys)"

text \<open>\<open>String.prototype.toLowerCase\<close> on the ASCII letters; other bytes are kept.\<close>

definition lowerChar :: "char \<Rightarrow> char" where
  "lowerChar c =
     (let n = (of_char c :: nat) in if 65 \<le> n \<and> n \<le> 90 then char_of (n + 32) else c)"

definition toLowerCase :: "string \<Rightarrow> string" where
  "toLowerCase s = map lowerChar s"

text \<open>\<open>s.includes(sub)\<close> on strings: \<open>sub\<close> occurs in \<open>s\<close> as a contiguous run.\<close>

definition includesStr :: "string \<Rightarrow> string \<Rightarrow> bool" where
  "includesStr s sub = sublist sub s"

text \<open>A whole number inside a template literal: its decimal digits, with a minus sign.\<close>

definition digitChar :: "nat \<Rightarrow> char" where
  "digitChar d = ''0123456789'' ! (d mod 10)"

fun natToString :: "nat \<Rightarrow> string" where
  "natToString n =
     (if n < 10 then [digitChar n] else natToString (n div 10) @ [digitChar (n mod 10)])"

definition numberToString :: "int \<Rightarrow> string" where
  "numberToString n =
     (if n < 0 then CHR ''-'' # natToString (nat (- n)) else natToString (nat n))"

text \<open>\<open>xs.indexOf(x)\<close>: the first index holding \<open>x\<close>, or \<open>-1\<close>.\<close>

fun indexOfFrom :: "int \<Rightarrow> 'a list \<Rightarrow> 'a \<Rightarrow> int" where
  "indexOfFrom i [] x = - 1"
| "indexOfFrom i (y # ys) x = (if y = x then i else indexOfFrom (i + 1) ys x)"

definition indexOf :: "'a list \<Rightarrow> 'a \<Rightarrow> int" where
  "indexOf xs x = indexOfFrom 0 xs x"

text \<open>\<open>xs.filter((x, index) => p(x, index))\<close>.\<close>

fun filterIndexedFrom :: "int \<Rightarrow> ('a \<Rightarrow> int \<Rightarrow> bool) \<Rightarrow> 'a list \<Rightarrow> 'a list" where
  "filterIndexedFrom i p [] = []"
| "filterIndexedFrom i p (x # xs) =
     (if p x i then x # filterIndexedFrom (i + 1) p xs else filterIndexedFrom (i + 1) p xs)"

definition filterIndexed :: "('a \<Rightarrow> int \<Rightarrow> bool) \<Rightarrow> 'a list \<Rightarrow> 'a list" where
  "filterIndexed p xs = filterIndexedFrom 0 p xs"

section \<open>What the generation service returns\<close>

text \<open>
  \<open>generateTextService\<close> is an external service. A factory awaits it and, when the reply
  is a string, hands it to \<open>JSON.parse\<close>. The model takes the outcome of these two
  steps as an input: the call throws; the reply is a string that \<open>JSON.parse\<close> rejects;
  the reply (or what \<open>JSON.parse\<close> makes of it) is falsy, as \<open>null\<close> is; or it is an
  object, whose fields may each be absent.
\<close>

datatype 'a serviceReply =
    Rejected string
  | Unparseable string
  | ParsedFalsy
  | Reply 'a

record AiCharacter =
  description :: "string option"
  motivations :: "string list option"
  fears :: "string list option"
  goals :: "string list option"
  traits :: "string list option"
  arc :: "string option"

record AiChapter =
  title :: "string option"
  description :: "string option"
  purpose :: "string option"
  conflicts :: "string list option"
  plotAdvancement :: "string option"
  characterMoments :: "string list option"

section \<open>The story bible data model\<close>

text \<open>
  The element schemas (\<open>BaseStoryElementSchema\<close> and its extensions) give the shape of
  the elements. The records follow them, with the fields that the tools read or write;
  \<open>id\<close> and \<open>type\<close> carry a prime because the plain names are taken.
\<close>

record Meta =
  title :: "string option"
  genre :: "string option"
  updatedAt :: string

record Style =
  pov :: "string option"
  tense :: "string option"

record BaseStoryElement =
  id' :: int
  type' :: string
  title :: string
  description :: string
  status :: string
  priority :: string
  createdAt :: string
  updatedAt :: string

record Premise = BaseStoryElement +
  content :: string
  genre :: string
  themes :: "string list option"

record Psychology =
  motivations :: "string list"
  fears :: "string list"
  goals :: "string list"

record Arc =
  summary :: "string option"

record Character = BaseStoryElement +
  characterType :: string
  psychology :: "Psychology option"
  traits :: "string list option"
  arc :: "Arc option"

record CharacterMoment =
  momentDescription :: string

record Chapter = BaseStoryElement +
  chapterNumber :: "int option"
  purpose :: string
  characters :: "int list option"
  plotThreads :: "int list option"
  conflicts :: "string list option"
  plotAdvancement :: "string option"
  characterMoments :: "CharacterMoment list option"
  pov :: "string option"
  scenes :: "int list option"
  targetWordCount :: "int option"

record Scene = BaseStoryElement +
  sceneType :: string
  chapterId :: int
  characters :: "int list option"
  setting :: string
  purpose :: string

record PlotThread = BaseStoryElement +
  threadType :: string
  resolution :: "string option"


record StoryBible =
  meta :: Meta
  premise :: "Premise option"
  characters :: "Character list option"
  chapters :: "Chapter list option"
  scenes :: "Scene list option"
  plotThreads :: "PlotThread list option"
  style :: "Style option"

section \<open>The consistency checker\<close>

text \<open>An issue as the checks push it; the identifiers are present only on the issue
  types that set them.\<close>

record Issue =
  issueType :: string
  description :: string
  severity :: string
  characterId :: "int option"
  chapterId :: "int option"
  plotThreadId :: "int option"

record FixedIssue = Issue +
  fixedAt :: string
  fixMode :: string

subsection \<open>checkCharacterConsistency\<close>

definition characterUnlisted :: "Character \<Rightarrow> Chapter \<Rightarrow> Issue" where
  \<open>characterUnlisted character parentChapter =
     \<lparr> issueType = ''character-unlisted'',
       description = ''Character "'' @ title character
         @ ''" appears in scenes but not listed in chapter "'' @ title parentChapter @ ''"'',
       severity = ''moderate'',
       characterId = Some (id' character),
       Issue.chapterId = Some (id' parentChapter),
       plotThreadId = None \<rparr>\<close>

definition characterArcUndefined :: "Character \<Rightarrow> Issue" where
  \<open>characterArcUndefined character =
     \<lparr> issueType = ''character-arc-undefined'',
       description = ''Character "'' @ title character
         @ ''" appears in multiple chapters but lacks defined character arc'',
       severity = ''minor'',
       characterId = Some (id' character),
       Issue.chapterId = None,
       plotThreadId = None \<rparr>\<close>

text \<open>The inner loop over the scenes of one character: the parent chapter is the first
  chapter in scope whose id is the scene's \<open>chapterId\<close>.\<close>

definition sceneIssues :: "Character \<Rightarrow> Chapter list \<Rightarrow> Scene \<Rightarrow> Issue list" where
  "sceneIssues character chs scene =
     (case find (\<lambda>c. id' c = Scene.chapterId scene) chs of
        None \<Rightarrow> []
      | Some parentChapter \<Rightarrow>
          if \<not> includesOpt (Chapter.characters parentChapter) (id' character)
          then [characterUnlisted character parentChapter] else [])"

definition arcIssues :: "Character \<Rightarrow> Chapter list \<Rightarrow> Issue list" where
  "arcIssues character characterChapters =
     (case arc character of
        None \<Rightarrow> []
      | Some a \<Rightarrow>
          if length characterChapters > 1
          then (if \<not> truthyStr (summary a) \<or> summary a = Some ''To be developed''
                then [characterArcUndefined character] else [])
          else [])"

text \<open>The body of the loop over the characters.\<close>

definition characterIssues :: "Chapter list \<Rightarrow> Scene list \<Rightarrow> Character \<Rightarrow> Issue list" where
  "characterIssues chs scs character =
     (let characterScenes = filter (\<lambda>s. includesOpt (Scene.characters s) (id' character)) scs;
          characterChapters = filter (\<lambda>c. includesOpt (Chapter.characters c) (id' character)) chs
      in concat (map (sceneIssues character chs) characterScenes)
         @ arcIssues character characterChapters)"

definition checkCharacterConsistency ::
  "Character list \<Rightarrow> Chapter list \<Rightarrow> Scene list \<Rightarrow> Issue list" where
  "checkCharacterConsistency chars chs scs = concat (map (characterIssues chs scs) chars)"

subsection \<open>checkPlotConsistency\<close>

definition plotThreadUnused :: "PlotThread \<Rightarrow> Issue" where
  \<open>plotThreadUnused plotThread =
     \<lparr> issueType = ''plot-thread-unused'',
       description = ''Plot thread "'' @ title plotThread
         @ ''" is not referenced in any chapters'',
       severity = ''minor'',
       characterId = None,
       Issue.chapterId = None,
       plotThreadId = Some (id' plotThread) \<rparr>\<close>

definition plotThreadUnresolved :: "PlotThread \<Rightarrow> Issue" where
  \<open>plotThreadUnresolved plotThread =
     \<lparr> issueType = ''plot-thread-unresolved'',
       description = ''Plot thread "'' @ title plotThread
         @ ''" marked complete but no resolution specified'',
       severity = ''moderate'',
       characterId = None,
       Issue.chapterId = None,
       plotThreadId = Some (id' plotThread) \<rparr>\<close>

definition mentionsThread :: "PlotThread \<Rightarrow> Chapter \<Rightarrow> bool" where
  "mentionsThread plotThread c =
     (includesOpt (Chapter.plotThreads c) (id' plotThread)
      \<or> (case plotAdvancement c of
            None \<Rightarrow> False
          | Some text \<Rightarrow> includesStr (toLowerCase text) (toLowerCase (title plotThread))))"

text \<open>The body of the loop over the plot threads.\<close>

definition plotThreadIssues :: "Chapter list \<Rightarrow> PlotThread \<Rightarrow> Issue list" where
  "plotThreadIssues chs plotThread =
     (let relevantChapters = filter (mentionsThread plotThread) chs
      in (if length relevantChapters = 0 \<and> status plotThread \<noteq> ''completed''
          then [plotThreadUnused plotThread] else [])
         @ (if status plotThread = ''completed'' \<and> \<not> truthyStr (resolution plotThread)
            then [plotThreadUnresolved plotThread] else []))"

definition checkPlotConsistency :: "PlotThread list \<Rightarrow> Chapter list \<Rightarrow> Issue list" where
  "checkPlotConsistency pts chs = concat (map (plotThreadIssues chs) pts)"

subsection \<open>checkTimelineConsistency\<close>

definition chapterSequenceGap :: "int \<Rightarrow> int \<Rightarrow> Issue" where
  "chapterSequenceGap prev next =
     \<lparr> issueType = ''chapter-sequence-gap'',
       description = ''Gap in chapter sequence: Chapter '' @ numberToString prev
         @ '' followed by Chapter '' @ numberToString next,
       severity = ''minor'',
       characterId = None,
       Issue.chapterId = None,
       plotThreadId = None \<rparr>"

definition duplicateChapterNumber :: "int \<Rightarrow> Issue" where
  "duplicateChapterNumber num =
     \<lparr> issueType = ''duplicate-chapter-number'',
       description = ''Duplicate chapter number: '' @ numberToString num,
       severity = ''critical'',
       characterId = None,
       Issue.chapterId = None,
       plotThreadId = None \<rparr>"

text \<open>The chapter numbers that the check works on: the truthy ones, sorted ascending.\<close>

definition chapterNumbers :: "Chapter list \<Rightarrow> int list" where
  "chapterNumbers chs =
     sort (map the (filter truthyNum (map chapterNumber chs)))"

text \<open>The loop \<open>for (i = 1; i < chapterNumbers.length; i++)\<close> over adjacent entries.\<close>

fun gapIssues :: "int list \<Rightarrow> Issue list" where
  "gapIssues (prev # next # rest) =
     (if next - prev > 1 then [chapterSequenceGap prev next] else [])
     @ gapIssues (next # rest)"
| "gapIssues _ = []"

definition duplicates :: "int list \<Rightarrow> int list" where
  "duplicates nums = filterIndexed (\<lambda>num index. indexOf nums num \<noteq> index) nums"

definition checkTimelineConsistency :: "Chapter list \<Rightarrow> Issue list" where
  "checkTimelineConsistency chs =
     (let nums = chapterNumbers chs
      in gapIssues nums @ map duplicateChapterNumber (duplicates nums))"

subsection \<open>checkStyleConsistency\<close>

definition povUndefined :: "nat \<Rightarrow> Issue" where
  "povUndefined n =
     \<lparr> issueType = ''pov-undefined'',
       description = numberToString (int n) @ '' chapters don't specify POV character'',
       severity = ''minor'',
       characterId = None,
       Issue.chapterId = None,
       plotThreadId = None \<rparr>"

definition checkStyleConsistency :: "Chapter list \<Rightarrow> Style option \<Rightarrow> Issue list" where
  "checkStyleConsistency chs styleGuide =
     (case styleGuide of
        None \<Rightarrow> []
      | Some guide \<Rightarrow>
          if truthyStr (Style.pov guide)
          then (let chaptersWithoutPOV = filter (\<lambda>c. \<not> truthyStr (Chapter.pov c)) chs
                in if length chaptersWithoutPOV > 0
                   then [povUndefined (length chaptersWithoutPOV)] else [])
          else [])"

subsection \<open>autoFixIssues\<close>

text \<open>\<open>xs.find(p)\<close> followed by a mutation of the object found: the first element
  satisfying \<open>p\<close> is replaced.\<close>

fun updateFirst :: "('a \<Rightarrow> bool) \<Rightarrow> ('a \<Rightarrow> 'a) \<Rightarrow> 'a list \<Rightarrow> 'a list" where
  "updateFirst p f [] = []"
| "updateFirst p f (x # xs) = (if p x then f x # xs else x # updateFirst p f xs)"

definition pushCharacter :: "int \<Rightarrow> Chapter \<Rightarrow> Chapter" where
  "pushCharacter k c =
     c\<lparr> Chapter.characters :=
          Some ((case Chapter.characters c of None \<Rightarrow> [] | Some xs \<Rightarrow> xs) @ [k]) \<rparr>"

definition markFixed :: "string \<Rightarrow> string \<Rightarrow> Issue \<Rightarrow> FixedIssue" where
  "markFixed now mode issue = Issue.extend issue \<lparr> fixedAt = now, fixMode = mode \<rparr>"

text \<open>
  One pass of the loop body. The story bible is mutated in place by the source, so it is
  threaded through. Every \<open>character-unlisted\<close> issue is built by the character check
  with both identifiers. For an issue of that type without a \<open>characterId\<close>, which no
  check builds, the source would push \<open>undefined\<close>; the list of integers cannot hold it,
  and the model leaves the chapter alone.
\<close>

definition autoFixIssue ::
  "string \<Rightarrow> string \<Rightarrow> FixedIssue list \<times> StoryBible \<Rightarrow> Issue \<Rightarrow> FixedIssue list \<times> StoryBible" where
  "autoFixIssue now mode acc issue =
     (let (fixedIssues, storyBible) = acc in
      if mode = ''conservative'' \<and> severity issue \<noteq> ''minor'' then acc
      else if issueType issue = ''character-unlisted'' then
        (case StoryBible.chapters storyBible of
           None \<Rightarrow> acc
         | Some chs \<Rightarrow>
             (case find (\<lambda>c. Some (id' c) = Issue.chapterId issue) chs of
                None \<Rightarrow> acc
              | Some ch \<Rightarrow>
                  (case characterId issue of
                     None \<Rightarrow> acc
                   | Some k \<Rightarrow>
                       if \<not> includesOpt (Chapter.characters ch) k
                       then (fixedIssues @ [markFixed now mode issue],
                             storyBible\<lparr> StoryBible.chapters :=
                               Some (updateFirst (\<lambda>c. Some (id' c) = Issue.chapterId issue)
                                       (pushCharacter k) chs) \<rparr>)
                       else acc)))
      else acc)"

definition autoFixIssues ::
  "string \<Rightarrow> Issue list \<Rightarrow> StoryBible \<Rightarrow> string \<Rightarrow> FixedIssue list \<times> StoryBible" where
  "autoFixIssues now issues storyBible mode =
     foldl (autoFixIssue now mode) ([], storyBible) issues"

section \<open>The document store and the results of the tools\<close>

text \<open>
  The tools keep their state in files under the project root, found by
  \<open>findProjectRoot() || process.cwd()\<close>. The story bible is the JSON document
  \<open>story-bible/story-bible.json\<close>; the store holds it parsed, or \<open>None\<close> when the file
  does not exist. The other files are Markdown renderings of an element or of a report:
  the store keeps, by path, the values that the template renders. Reads and writes of an
  existing store succeed: an input/output failure other than the absence of the story
  bible is outside the model.
\<close>

record Suggestion =
  suggestionType :: string
  content :: string

record ReportParams =
  checkType :: string
  characterId :: "int option"
  plotThreadId :: "int option"
  startChapter :: int
  endChapter :: "int option"
  chaptersAnalyzed :: nat
  charactersAnalyzed :: nat

datatype Markdown =
    CharacterSheet Character string
  | ChapterSheet Chapter string bool int string
  | ConsistencyReport "Issue list" "Suggestion list" "FixedIssue list" ReportParams string

record World =
  storyBibleJson :: "StoryBible option"
  documents :: "string \<rightharpoonup> Markdown"
  directories :: "string set"

text \<open>What the tools read from their surroundings: the project root, the clock as an
  ISO-8601 string (\<open>new Date().toISOString()\<close>) and in milliseconds (\<open>Date.now()\<close>).\<close>

record Env =
  projectRoot :: string
  now :: string
  nowMs :: int

definition pathJoin :: "string list \<Rightarrow> string" where
  "pathJoin parts = foldr (\<lambda>part rest. if rest = [] then part else part @ ''/'' @ rest) parts []"

text \<open>
  Every tool returns \<open>{success, message, data?, error?}\<close>. A failed result carries its
  message and its error; the message of a successful result is a rendering of its data
  for the reader, and only the data are kept. The messages start with a pictograph,
  which is left out.
\<close>

datatype 'd Result =
    Failed (message: string) (error: string)
  | Succeeded (data: 'd)

definition success :: "'d Result \<Rightarrow> bool" where
  "success r = (case r of Failed m e \<Rightarrow> False | Succeeded d \<Rightarrow> True)"

definition noStoryBible :: "'d Result" where
  \<open>noStoryBible =
     Failed ''No story bible found. Run "parse-premise" first to set up your story structure.''
       ''Story bible not found''\<close>

text \<open>The \<open>catch (error)\<close> at the end of a tool.\<close>

definition failedTo :: "string \<Rightarrow> string \<Rightarrow> 'd Result" where
  "failedTo what errorMessage = Failed (''Failed to '' @ what @ '': '' @ errorMessage) errorMessage"

section \<open>checkConsistencyDirect\<close>

record CheckParams =
  checkType :: string
  characterId :: "int option"
  plotThreadId :: "int option"
  startChapter :: int
  endChapter :: "int option"
  generateReport :: bool
  autoFix :: bool
  fixMode :: string
  session :: bool

definition defaultCheckParams :: CheckParams where
  "defaultCheckParams =
     \<lparr> checkType = ''all'', characterId = None, plotThreadId = None, startChapter = 1,
       endChapter = None, generateReport = True, autoFix = False,
       fixMode = ''conservative'', session = False \<rparr>"

record ConsistencyStats =
  totalIssues :: nat
  fixedIssuesCount :: nat
  chaptersAnalyzed :: nat
  charactersAnalyzed :: nat

record ConsistencyData =
  issues :: "Issue list"
  suggestions :: "Suggestion list"
  fixedIssues :: "FixedIssue list"
  reportPath :: "string option"
  stats :: ConsistencyStats

text \<open>\<open>xs || []\<close> for a collection of the story bible.\<close>

definition orEmpty :: "'a list option \<Rightarrow> 'a list" where
  "orEmpty xs = (case xs of None \<Rightarrow> [] | Some ys \<Rightarrow> ys)"

text \<open>\<open>n || 0\<close>.\<close>

definition orZero :: "int option \<Rightarrow> int" where
  "orZero n = (case n of None \<Rightarrow> 0 | Some k \<Rightarrow> k)"

text \<open>The filter of the chapters by range.\<close>

definition inRange :: "int \<Rightarrow> int option \<Rightarrow> Chapter \<Rightarrow> bool" where
  "inRange start end c =
     (let chapterNum = orZero (chapterNumber c)
      in chapterNum \<ge> start
         \<and> (case end of
               None \<Rightarrow> True
             | Some e \<Rightarrow> if e \<noteq> 0 then chapterNum \<le> e else True))"

definition targetChapters :: "CheckParams \<Rightarrow> StoryBible \<Rightarrow> Chapter list" where
  "targetChapters params storyBible =
     filter (inRange (CheckParams.startChapter params) (CheckParams.endChapter params))
       (orEmpty (StoryBible.chapters storyBible))"

text \<open>The issues of the four rule families, in the order in which they are pushed.\<close>

definition collectIssues :: "CheckParams \<Rightarrow> StoryBible \<Rightarrow> Issue list" where
  "collectIssues params storyBible =
     (let chs = targetChapters params storyBible;
          chars = orEmpty (StoryBible.characters storyBible);
          scs = orEmpty (StoryBible.scenes storyBible);
          pts = orEmpty (StoryBible.plotThreads storyBible);
          ty = CheckParams.checkType params
      in (if ty = ''character'' \<or> ty = ''all''
          then checkCharacterConsistency
                 (if truthyNum (CheckParams.characterId params)
                  then filter (\<lambda>c. Some (id' c) = CheckParams.characterId params) chars
                  else chars)
                 chs scs
          else [])
       @ (if ty = ''plot'' \<or> ty = ''all''
          then checkPlotConsistency
                 (if truthyNum (CheckParams.plotThreadId params)
                  then filter (\<lambda>p. Some (id' p) = CheckParams.plotThreadId params) pts
                  else pts)
                 chs
          else [])
       @ (if ty = ''timeline'' \<or> ty = ''all'' then checkTimelineConsistency chs else [])
       @ (if ty = ''style'' \<or> ty = ''all''
          then checkStyleConsistency chs (StoryBible.style storyBible) else []))"

text \<open>The advisory analysis: asked for when there are issues and a session; \<open>aiAnalysis\<close>
  is the text that the service returns, \<open>None\<close> when the call throws (which is caught).\<close>

definition collectSuggestions :: "CheckParams \<Rightarrow> string option \<Rightarrow> Issue list \<Rightarrow> Suggestion list" where
  "collectSuggestions params aiAnalysis found =
     (if length found > 0 \<and> session params
      then (case aiAnalysis of
              None \<Rightarrow> []
            | Some text \<Rightarrow> [\<lparr> suggestionType = ''ai-analysis'', content = text \<rparr>])
      else [])"

definition generateConsistencyReport ::
  "Env \<Rightarrow> Issue list \<Rightarrow> Suggestion list \<Rightarrow> FixedIssue list \<Rightarrow> ReportParams \<Rightarrow> World
     \<Rightarrow> string \<times> World" where
  "generateConsistencyReport env found suggs fixed checkParams world =
     (let path = pathJoin [projectRoot env, ''story-bible'',
                   ''consistency-report-'' @ numberToString (nowMs env) @ ''.md'']
      in (path,
          world\<lparr> documents :=
            (documents world)(path \<mapsto> ConsistencyReport found suggs fixed checkParams (now env)) \<rparr>))"

definition checkConsistencyDirect ::
  "Env \<Rightarrow> string option \<Rightarrow> CheckParams \<Rightarrow> World \<Rightarrow> ConsistencyData Result \<times> World" where
  "checkConsistencyDirect env aiAnalysis params world =
     (case storyBibleJson world of
        None \<Rightarrow> (noStoryBible, world)
      | Some storyBible \<Rightarrow>
          (let chs = targetChapters params storyBible;
               chars = orEmpty (StoryBible.characters storyBible);
               found = collectIssues params storyBible;
               suggs = collectSuggestions params aiAnalysis found;
               (fixed, storyBible') =
                 (if autoFix params \<and> length found > 0
                  then autoFixIssues (now env) found storyBible (CheckParams.fixMode params)
                  else ([], storyBible));
               world1 =
                 (if autoFix params \<and> length found > 0 \<and> length fixed > 0
                  then world\<lparr> storyBibleJson :=
                         Some (storyBible'\<lparr> StoryBible.meta :=
                                 (StoryBible.meta storyBible')\<lparr> Meta.updatedAt := now env \<rparr> \<rparr>) \<rparr>
                  else world);
               (path, world2) =
                 (if generateReport params
                  then (let (p, w) = generateConsistencyReport env found suggs fixed
                               \<lparr> ReportParams.checkType = CheckParams.checkType params,
                                 ReportParams.characterId = CheckParams.characterId params,
                                 ReportParams.plotThreadId = CheckParams.plotThreadId params,
                                 ReportParams.startChapter = CheckParams.startChapter params,
                                 ReportParams.endChapter = CheckParams.endChapter params,
                                 ReportParams.chaptersAnalyzed = length chs,
                                 ReportParams.charactersAnalyzed = length chars \<rparr> world1
                        in (Some p, w))
                  else (None, world1))
           in (Succeeded
                 \<lparr> issues = found, suggestions = suggs, fixedIssues = fixed, reportPath = path,
                   stats = \<lparr> totalIssues = length found, fixedIssuesCount = length fixed,
                             chaptersAnalyzed = length chs,
                             charactersAnalyzed = length chars \<rparr> \<rparr>,
               world2)))"

section \<open>getStoryStatusDirect\<close>

record ChapterStats =
  total :: nat
  draft :: nat
  inProgress :: nat
  completed :: nat
  review :: nat
  needsRevision :: nat
  published :: nat

record CharacterStats =
  total :: nat
  protagonist :: nat
  antagonist :: nat
  supporting :: nat
  minor :: nat
  completed :: nat

record SceneStats =
  total :: nat
  completed :: nat

record PlotThreadStats =
  total :: nat
  completed :: nat

record Stats =
  premise :: nat
  chapters :: ChapterStats
  characters :: CharacterStats
  scenes :: SceneStats
  plotThreads :: PlotThreadStats

record Completion =
  overall :: int
  chapters :: int
  characters :: int
  scenes :: int
  plotThreads :: int

text \<open>
  The percentages are computed on JavaScript numbers. The model computes on exact
  rationals, so a quotient is not rounded to a double before \<open>Math.round\<close> sees it.
  \<open>Math.round\<close> rounds to the nearest integer, a half towards \<open>+\<infinity>\<close>.
\<close>

definition mathRound :: "rat \<Rightarrow> int" where
  "mathRound x = \<lfloor>x + 1 / 2\<rfloor>"

definition countWhere :: "('a \<Rightarrow> bool) \<Rightarrow> 'a list \<Rightarrow> nat" where
  "countWhere p xs = length (filter p xs)"

definition computeStats :: "StoryBible \<Rightarrow> Stats" where
  "computeStats storyBible =
     (let chs = orEmpty (StoryBible.chapters storyBible);
          chars = orEmpty (StoryBible.characters storyBible);
          scs = orEmpty (StoryBible.scenes storyBible);
          pts = orEmpty (StoryBible.plotThreads storyBible)
      in \<lparr> Stats.premise =
             (case StoryBible.premise storyBible of
                None \<Rightarrow> 0
              | Some p \<Rightarrow> if status p = ''completed'' then 1 else 0),
           Stats.chapters =
             \<lparr> ChapterStats.total = length chs,
               draft = countWhere (\<lambda>c. status c = ''draft'') chs,
               inProgress = countWhere (\<lambda>c. status c = ''in-progress'') chs,
               ChapterStats.completed = countWhere (\<lambda>c. status c = ''completed'') chs,
               review = countWhere (\<lambda>c. status c = ''review'') chs,
               needsRevision = countWhere (\<lambda>c. status c = ''needs-revision'') chs,
               published = countWhere (\<lambda>c. status c = ''published'') chs \<rparr>,
           Stats.characters =
             \<lparr> CharacterStats.total = length chars,
               protagonist = countWhere (\<lambda>c. characterType c = ''protagonist'') chars,
               antagonist = countWhere (\<lambda>c. characterType c = ''antagonist'') chars,
               supporting = countWhere (\<lambda>c. characterType c = ''supporting'') chars,
               minor = countWhere (\<lambda>c. characterType c = ''minor'') chars,
               CharacterStats.completed = countWhere (\<lambda>c. status c = ''completed'') chars \<rparr>,
           Stats.scenes =
             \<lparr> SceneStats.total = length scs,
               SceneStats.completed = countWhere (\<lambda>s. status s = ''completed'') scs \<rparr>,
           Stats.plotThreads =
             \<lparr> PlotThreadStats.total = length pts,
               PlotThreadStats.completed = countWhere (\<lambda>p. status p = ''completed'') pts \<rparr> \<rparr>)"

text \<open>One step of \<open>calculateOverallCompletion\<close>: a category with elements adds its weight
  to \<open>totalWeight\<close> and its completed share of the weight to \<open>completedWeight\<close>.\<close>

definition addCategory :: "nat \<Rightarrow> nat \<Rightarrow> rat \<Rightarrow> rat \<times> rat \<Rightarrow> rat \<times> rat" where
  "addCategory done count weight acc =
     (let (totalWeight, completedWeight) = acc
      in if count > 0
         then (totalWeight + weight, completedWeight + (of_nat done / of_nat count) * weight)
         else acc)"

definition calculateOverallCompletion :: "Stats \<Rightarrow> int" where
  "calculateOverallCompletion st =
     (let acc0 = (if Stats.premise st > 0 then (10, 10) else (0, 0));
          acc1 = addCategory (ChapterStats.completed (Stats.chapters st))
                   (ChapterStats.total (Stats.chapters st)) 60 acc0;
          acc2 = addCategory (CharacterStats.completed (Stats.characters st))
                   (CharacterStats.total (Stats.characters st)) 20 acc1;
          (totalWeight, completedWeight) =
                 addCategory (PlotThreadStats.completed (Stats.plotThreads st))
                   (PlotThreadStats.total (Stats.plotThreads st)) 10 acc2
      in if totalWeight > 0 then mathRound ((completedWeight / totalWeight) * 100) else 0)"

definition percentage :: "nat \<Rightarrow> nat \<Rightarrow> int" where
  "percentage done count =
     (if count > 0 then mathRound ((of_nat done / of_nat count) * 100) else 0)"

definition computeCompletion :: "Stats \<Rightarrow> Completion" where
  "computeCompletion st =
     \<lparr> overall = calculateOverallCompletion st,
       Completion.chapters = percentage (ChapterStats.completed (Stats.chapters st))
                    (ChapterStats.total (Stats.chapters st)),
       Completion.characters = percentage (CharacterStats.completed (Stats.characters st))
                      (CharacterStats.total (Stats.characters st)),
       Completion.scenes = percentage (SceneStats.completed (Stats.scenes st))
                  (SceneStats.total (Stats.scenes st)),
       Completion.plotThreads = percentage (PlotThreadStats.completed (Stats.plotThreads st))
                       (PlotThreadStats.total (Stats.plotThreads st)) \<rparr>"

record StatusParams =
  includeChapters :: bool
  includeCharacters :: bool
  includePlotThreads :: bool
  includeWordCounts :: bool
  includeNextSteps :: bool
  format :: string

record StatusData =
  stats :: Stats
  completion :: Completion
  meta :: Meta
  chapters :: "Chapter list option"
  characters :: "Character list option"
  plotThreads :: "PlotThread list option"

definition getStoryStatusDirect :: "StatusParams \<Rightarrow> World \<Rightarrow> StatusData Result \<times> World" where
  "getStoryStatusDirect params world =
     (case storyBibleJson world of
        None \<Rightarrow> (noStoryBible, world)
      | Some storyBible \<Rightarrow>
          (let st = computeStats storyBible
           in (Succeeded
                 \<lparr> StatusData.stats = st,
                   completion = computeCompletion st,
                   StatusData.meta = StoryBible.meta storyBible,
                   StatusData.chapters =
                     (if includeChapters params
                      then Some (orEmpty (StoryBible.chapters storyBible)) else None),
                   StatusData.characters =
                     (if includeCharacters params
                      then Some (orEmpty (StoryBible.characters storyBible)) else None),
                   StatusData.plotThreads =
                     (if includePlotThreads params
                      then Some (orEmpty (StoryBible.plotThreads storyBible)) else None) \<rparr>,
               world)))"

section \<open>createCharacterDirect\<close>

record CreateCharacterParams =
  name :: string
  characterType :: string
  description :: "string option"
  generateProfile :: bool
  generateArc :: bool
  generateVoice :: bool
  priority :: string

record CharacterData =
  character :: Character
  filePath :: string
  newId :: int

text \<open>\<open>a || b\<close> on strings.\<close>

definition orElse :: "string option \<Rightarrow> string \<Rightarrow> string" where
  "orElse a b = (case a of None \<Rightarrow> b | Some s \<Rightarrow> if s \<noteq> [] then s else b)"

text \<open>\<open>xs.length > 0 ? Math.max(...xs) + 1 : 1\<close>.\<close>

definition nextIdOf :: "int list \<Rightarrow> int" where
  "nextIdOf ids = (case ids of [] \<Rightarrow> 1 | x # xs \<Rightarrow> foldl max x xs + 1)"

text \<open>\<open>name.toLowerCase().replace(/[^a-z0-9]/g, '-') + '.md'\<close>, on ASCII names.\<close>

definition slugChar :: "char \<Rightarrow> char" where
  "slugChar c =
     (let n = (of_char c :: nat)
      in if (97 \<le> n \<and> n \<le> 122) \<or> (48 \<le> n \<and> n \<le> 57) then c else CHR ''-'')"

definition characterFileName :: "string \<Rightarrow> string" where
  "characterFileName nm = map slugChar (toLowerCase nm) @ ''.md''"

definition baselineProfile :: "Env \<Rightarrow> CreateCharacterParams \<Rightarrow> int \<Rightarrow> Character" where
  "baselineProfile env params nextId =
     \<lparr> id' = nextId,
       type' = ''character'',
       title = name params,
       BaseStoryElement.description =
         orElse (CreateCharacterParams.description params)
           (CreateCharacterParams.characterType params @ '' character''),
       status = ''draft'',
       BaseStoryElement.priority = CreateCharacterParams.priority params,
       createdAt = now env,
       BaseStoryElement.updatedAt = now env,
       Character.characterType = CreateCharacterParams.characterType params,
       psychology = None,
       Character.traits = None,
       Character.arc = None \<rparr>"

text \<open>The spread \<open>{...characterProfile, description, psychology, traits, arc}\<close>.\<close>

definition enhanceProfile :: "Character \<Rightarrow> AiCharacter \<Rightarrow> Character" where
  "enhanceProfile characterProfile aiCharacter =
     characterProfile
       \<lparr> BaseStoryElement.description :=
           orElse (AiCharacter.description aiCharacter)
             (BaseStoryElement.description characterProfile),
         psychology :=
           Some \<lparr> Psychology.motivations = orEmpty (AiCharacter.motivations aiCharacter),
                  Psychology.fears = orEmpty (AiCharacter.fears aiCharacter),
                  Psychology.goals = orEmpty (AiCharacter.goals aiCharacter) \<rparr>,
         Character.traits := Some (orEmpty (AiCharacter.traits aiCharacter)),
         Character.arc :=
           Some \<lparr> summary = Some (orElse (AiCharacter.arc aiCharacter) ''To be developed'') \<rparr> \<rparr>"

text \<open>
  The enrichment block. The call of the service is not inside the \<open>try\<close> that guards
  \<open>JSON.parse\<close>: a call that throws leaves the block with the error (\<open>Inl\<close>), which the
  \<open>catch\<close> at the end of the tool turns into a failed result.
\<close>

definition enrichProfile ::
  "CreateCharacterParams \<Rightarrow> AiCharacter serviceReply \<Rightarrow> Character \<Rightarrow> string + Character" where
  "enrichProfile params reply characterProfile =
     (if generateProfile params \<or> generateArc params \<or> generateVoice params
      then (case reply of
              Rejected errorMessage \<Rightarrow> Inl errorMessage
            | Unparseable text \<Rightarrow> Inr characterProfile
            | ParsedFalsy \<Rightarrow> Inr characterProfile
            | Reply aiCharacter \<Rightarrow> Inr (enhanceProfile characterProfile aiCharacter))
      else Inr characterProfile)"

definition createCharacterDirect ::
  "Env \<Rightarrow> AiCharacter serviceReply \<Rightarrow> CreateCharacterParams \<Rightarrow> World
     \<Rightarrow> CharacterData Result \<times> World" where
  "createCharacterDirect env reply params world =
     (case storyBibleJson world of
        None \<Rightarrow> (noStoryBible, world)
      | Some storyBible \<Rightarrow>
          (case StoryBible.premise storyBible of
             None \<Rightarrow>
               (Failed ''No premise found in story bible. Complete premise setup first.''
                  ''Premise not found'', world)
           | Some prem \<Rightarrow>
               (let existingCharacters = orEmpty (StoryBible.characters storyBible);
                    nextId = nextIdOf (map id' existingCharacters);
                    charactersDir = pathJoin [projectRoot env, ''characters''];
                    world1 = world\<lparr> directories := insert charactersDir (directories world) \<rparr>
                in (case enrichProfile params reply (baselineProfile env params nextId) of
                      Inl errorMessage \<Rightarrow> (failedTo ''create character'' errorMessage, world1)
                    | Inr characterProfile \<Rightarrow>
                        (let characterFilePath =
                               pathJoin [charactersDir, characterFileName (name params)];
                             world2 = world1\<lparr> documents :=
                               (documents world1)
                                 (characterFilePath \<mapsto> CharacterSheet characterProfile (now env)) \<rparr>;
                             storyBible' = storyBible
                               \<lparr> StoryBible.characters :=
                                   Some (existingCharacters @ [characterProfile]),
                                 StoryBible.meta :=
                                   (StoryBible.meta storyBible)\<lparr> Meta.updatedAt := now env \<rparr> \<rparr>
                         in (Succeeded \<lparr> character = characterProfile,
                                          filePath = characterFilePath, newId = nextId \<rparr>,
                             world2\<lparr> storyBibleJson := Some storyBible' \<rparr>))))))"

section \<open>The element schemas\<close>

















section \<open>nextChapterDirect\<close>

record NextChapterParams =
  status :: "string option"
  priority :: "string option"
  includeScenes :: bool
  characterFocus :: "string option"
  plotThread :: "string option"

record NextChapterData =
  nextChapter :: "Chapter option"
  recommendation :: "string option"
  reason :: "string option"
  chapterNumber :: "int option"
  completedChapters :: "nat option"
  totalChapters :: "nat option"
  scenes :: "Scene list option"

text \<open>\<open>parseInt(s)\<close> without a radix: leading white space, a sign, \<open>0x\<close> for base 16, then
  the longest run of digits; \<open>None\<close> stands for \<open>NaN\<close>.\<close>

definition digitValue :: "char \<Rightarrow> nat option" where
  "digitValue c =
     (let n = (of_char c :: nat)
      in if 48 \<le> n \<and> n \<le> 57 then Some (n - 48)
         else if 97 \<le> n \<and> n \<le> 102 then Some (n - 87)
         else if 65 \<le> n \<and> n \<le> 70 then Some (n - 55)
         else None)"

definition isDigitOf :: "nat \<Rightarrow> char \<Rightarrow> bool" where
  "isDigitOf radix c = (case digitValue c of None \<Rightarrow> False | Some d \<Rightarrow> d < radix)"

definition isWhiteSpace :: "char \<Rightarrow> bool" where
  "isWhiteSpace c = ((of_char c :: nat) \<in> {9, 10, 11, 12, 13, 32})"

definition parseInt :: "string \<Rightarrow> int option" where
  "parseInt s =
     (let trimmed = dropWhile isWhiteSpace s;
          (negative, unsigned) =
            (case trimmed of
               [] \<Rightarrow> (False, [])
             | c # rest \<Rightarrow>
                 if c = CHR ''-'' then (True, rest)
                 else if c = CHR ''+'' then (False, rest) else (False, trimmed));
          (radix, body) =
            (if take 2 unsigned = ''0x'' \<or> take 2 unsigned = ''0X''
             then (16, drop 2 unsigned) else (10, unsigned));
          ds = takeWhile (isDigitOf radix) body;
          magnitude = foldl (\<lambda>acc c. acc * radix + (case digitValue c of None \<Rightarrow> 0 | Some d \<Rightarrow> d)) 0 ds
      in if ds = [] then None
         else Some (if negative then - int magnitude else int magnitude))"

text \<open>\<open>xs.includes(parseInt(s))\<close> on an array of integers: \<open>NaN\<close> is in none.\<close>

definition includesParsed :: "int list option \<Rightarrow> string \<Rightarrow> bool" where
  "includesParsed xs s = (case parseInt s of None \<Rightarrow> False | Some k \<Rightarrow> includesOpt xs k)"

definition isCandidate :: "NextChapterParams \<Rightarrow> Chapter \<Rightarrow> bool" where
  "isCandidate params ch =
     (if truthyStr (NextChapterParams.status params)
         \<and> Some (BaseStoryElement.status ch) \<noteq> NextChapterParams.status params then False
      else if truthyStr (NextChapterParams.priority params)
         \<and> Some (BaseStoryElement.priority ch) \<noteq> NextChapterParams.priority params then False
      else if truthyStr (characterFocus params)
         \<and> \<not> includesParsed (Chapter.characters ch) (orElse (characterFocus params) []) then False
      else if truthyStr (plotThread params)
         \<and> \<not> includesParsed (Chapter.plotThreads ch) (orElse (plotThread params) []) then False
      else True)"

text \<open>\<open>Array.prototype.sort\<close> with a comparator; the sort is stable.\<close>

fun insertBy :: "('a \<Rightarrow> 'a \<Rightarrow> int) \<Rightarrow> 'a \<Rightarrow> 'a list \<Rightarrow> 'a list" where
  "insertBy cmp x [] = [x]"
| "insertBy cmp x (y # ys) = (if cmp x y \<le> 0 then x # y # ys else y # insertBy cmp x ys)"

definition sortBy :: "('a \<Rightarrow> 'a \<Rightarrow> int) \<Rightarrow> 'a list \<Rightarrow> 'a list" where
  "sortBy cmp xs = foldr (insertBy cmp) xs []"

definition priorityOrder :: "string \<Rightarrow> int" where
  "priorityOrder p =
     (if p = ''high'' then 3 else if p = ''medium'' then 2 else if p = ''low'' then 1 else 2)"

definition compareDrafts :: "Chapter \<Rightarrow> Chapter \<Rightarrow> int" where
  "compareDrafts a b =
     (let priorityDiff = priorityOrder (BaseStoryElement.priority b)
                         - priorityOrder (BaseStoryElement.priority a)
      in if priorityDiff \<noteq> 0 then priorityDiff
         else (if truthyNum (Chapter.chapterNumber a) then orZero (Chapter.chapterNumber a) else 999)
              - (if truthyNum (Chapter.chapterNumber b) then orZero (Chapter.chapterNumber b) else 999))"

text \<open>The workflow ladder: a chapter in progress, then one that needs revision, then the
  first draft by priority and number.\<close>

definition chooseNext :: "Chapter list \<Rightarrow> (Chapter \<times> string) option" where
  "chooseNext candidateChapters =
     (case filter (\<lambda>c. BaseStoryElement.status c = ''in-progress'') candidateChapters of
        c # cs \<Rightarrow> Some (c, ''Continue working on chapter already in progress'')
      | [] \<Rightarrow>
          (case filter (\<lambda>c. BaseStoryElement.status c = ''needs-revision'') candidateChapters of
             c # cs \<Rightarrow> Some (c, ''Address revision feedback'')
           | [] \<Rightarrow>
               (case sortBy compareDrafts
                       (filter (\<lambda>c. BaseStoryElement.status c = ''draft'') candidateChapters) of
                  c # cs \<Rightarrow> Some (c, ''Continue story progression'')
                | [] \<Rightarrow> None)))"

definition nextChapterDirect ::
  "NextChapterParams \<Rightarrow> World \<Rightarrow> NextChapterData Result \<times> World" where
  "nextChapterDirect params world =
     (case storyBibleJson world of
        None \<Rightarrow> (noStoryBible, world)
      | Some storyBible \<Rightarrow>
          (case orEmpty (StoryBible.chapters storyBible) of
             [] \<Rightarrow>
               (Succeeded \<lparr> nextChapter = None, recommendation = Some ''Create first chapter'',
                            reason = None, NextChapterData.chapterNumber = Some 1,
                            completedChapters = None, totalChapters = None,
                            NextChapterData.scenes = None \<rparr>, world)
           | ch # chs \<Rightarrow>
               (case chooseNext (filter (isCandidate params) (ch # chs)) of
                  None \<Rightarrow>
                    (Succeeded
                       \<lparr> nextChapter = None, recommendation = Some ''Create next chapter'',
                         reason = None,
                         NextChapterData.chapterNumber =
                           Some (foldl max (orZero (Chapter.chapterNumber ch))
                                   (map (\<lambda>c. orZero (Chapter.chapterNumber c)) chs) + 1),
                         completedChapters =
                           Some (countWhere (\<lambda>c. BaseStoryElement.status c = ''completed'') (ch # chs)),
                         totalChapters = Some (length (ch # chs)),
                         NextChapterData.scenes = None \<rparr>, world)
                | Some (chosen, why) \<Rightarrow>
                    (Succeeded
                       \<lparr> nextChapter = Some chosen, recommendation = None, reason = Some why,
                         NextChapterData.chapterNumber = None,
                         completedChapters = None, totalChapters = None,
                         NextChapterData.scenes =
                           (if includeScenes params
                            then Some (filter (\<lambda>s. includesOpt (Chapter.scenes chosen) (id' s))
                                         (orEmpty (StoryBible.scenes storyBible)))
                            else None) \<rparr>, world))))"

section \<open>generateChapterDirect\<close>

record GenerateChapterParams =
  chapterId :: "int option"
  chapterNumber :: "int option"
  title :: "string option"
  purpose :: "string option"
  targetWordCount :: int
  generateScenes :: bool
  sceneCount :: int
  characters :: "int list option"
  plotThreads :: "int list option"
  conflicts :: "string list option"
  generateContent :: bool
  priority :: string

record ChapterData =
  chapter' :: Chapter
  filePath :: string
  isNewChapter :: bool
  sceneCount :: nat

definition newChapter :: "Env \<Rightarrow> GenerateChapterParams \<Rightarrow> Chapter list \<Rightarrow> Chapter" where
  "newChapter env params existingChapters =
     (let nextId = nextIdOf (map id' existingChapters);
          nextChapterNum =
            (if truthyNum (GenerateChapterParams.chapterNumber params)
             then orZero (GenerateChapterParams.chapterNumber params)
             else nextIdOf (map (\<lambda>c. orZero (Chapter.chapterNumber c)) existingChapters))
      in \<lparr> id' = nextId,
           type' = ''chapter'',
           BaseStoryElement.title =
             orElse (GenerateChapterParams.title params)
               (''Chapter '' @ numberToString nextChapterNum),
           BaseStoryElement.description =
             orElse (GenerateChapterParams.purpose params) ''Chapter description to be developed'',
           BaseStoryElement.status = ''draft'',
           BaseStoryElement.priority = GenerateChapterParams.priority params,
           createdAt = now env,
           BaseStoryElement.updatedAt = now env,
           Chapter.chapterNumber = Some nextChapterNum,
           Chapter.purpose =
             orElse (GenerateChapterParams.purpose params) ''Chapter purpose to be defined'',
           Chapter.characters = Some (orEmpty (GenerateChapterParams.characters params)),
           Chapter.plotThreads = Some (orEmpty (GenerateChapterParams.plotThreads params)),
           Chapter.conflicts = Some (orEmpty (GenerateChapterParams.conflicts params)),
           Chapter.plotAdvancement = None,
           Chapter.characterMoments = None,
           Chapter.pov = None,
           Chapter.scenes = Some [],
           Chapter.targetWordCount = Some (GenerateChapterParams.targetWordCount params) \<rparr>)"

definition enhanceChapter :: "Chapter \<Rightarrow> AiChapter \<Rightarrow> Chapter" where
  "enhanceChapter workingChapter aiChapter =
     workingChapter
       \<lparr> BaseStoryElement.title :=
           orElse (AiChapter.title aiChapter) (BaseStoryElement.title workingChapter),
         BaseStoryElement.description :=
           orElse (AiChapter.description aiChapter)
             (BaseStoryElement.description workingChapter),
         Chapter.purpose :=
           orElse (AiChapter.purpose aiChapter) (Chapter.purpose workingChapter),
         Chapter.conflicts :=
           (case AiChapter.conflicts aiChapter of
              None \<Rightarrow> Chapter.conflicts workingChapter
            | Some cs \<Rightarrow> Some cs),
         Chapter.plotAdvancement := AiChapter.plotAdvancement aiChapter,
         Chapter.characterMoments :=
           Some (map (\<lambda>moment. \<lparr> momentDescription = moment \<rparr>)
                   (orEmpty (AiChapter.characterMoments aiChapter))) \<rparr>"

definition placeholderScene :: "Env \<Rightarrow> Chapter \<Rightarrow> int \<Rightarrow> int \<Rightarrow> Scene" where
  "placeholderScene env workingChapter sceneId i =
     \<lparr> id' = sceneId,
       type' = ''scene'',
       BaseStoryElement.title =
         BaseStoryElement.title workingChapter @ '' - Scene '' @ numberToString i,
       BaseStoryElement.description =
         ''Scene '' @ numberToString i @ '' of chapter ''
           @ (case Chapter.chapterNumber workingChapter of
                None \<Rightarrow> ''undefined'' | Some n \<Rightarrow> numberToString n),
       BaseStoryElement.status = ''draft'',
       BaseStoryElement.priority = ''medium'',
       createdAt = now env,
       BaseStoryElement.updatedAt = now env,
       sceneType = ''dialogue'',
       Scene.chapterId = id' workingChapter,
       Scene.characters = Some (orEmpty (Chapter.characters workingChapter)),
       setting = ''To be determined'',
       Scene.purpose = ''Advance chapter goals - scene '' @ numberToString i \<rparr>"

text \<open>
  The loop \<open>for (let i = 1; i <= sceneCount; i++)\<close>. Each pass pushes the scene's id on
  \<open>workingChapter.scenes\<close>, which throws a \<open>TypeError\<close> when an existing chapter has no
  \<open>scenes\<close> array; the words of the error are those of the V8 engine.
\<close>

definition generateSceneList ::
  "Env \<Rightarrow> int \<Rightarrow> nat \<Rightarrow> Chapter \<Rightarrow> string + (Scene list \<times> Chapter)" where
  "generateSceneList env count existing workingChapter =
     (let indices = [1..count]
      in if indices = [] then Inr ([], workingChapter)
         else (case Chapter.scenes workingChapter of
                 None \<Rightarrow> Inl ''Cannot read properties of undefined (reading 'push')''
               | Some ids \<Rightarrow>
                   Inr (map (\<lambda>i. placeholderScene env workingChapter (int existing + i) i) indices,
                        workingChapter\<lparr> Chapter.scenes :=
                          Some (ids @ map (\<lambda>i. int existing + i) indices) \<rparr>)))"

text \<open>\<open>chapter-NN.md\<close>: the chapter number padded to two digits; reading the number of
  a chapter that has none throws.\<close>

definition chapterFileName :: "Chapter \<Rightarrow> string + string" where
  "chapterFileName workingChapter =
     (case Chapter.chapterNumber workingChapter of
        None \<Rightarrow> Inl ''Cannot read properties of undefined (reading 'toString')''
      | Some n \<Rightarrow>
          (let digits = numberToString n
           in Inr (''chapter-'' @ replicate (2 - length digits) CHR ''0'' @ digits @ ''.md'')))"

definition characterNames :: "Character list \<Rightarrow> Chapter \<Rightarrow> string" where
  "characterNames existingCharacters workingChapter =
     foldr (\<lambda>nm rest. if rest = [] then nm else nm @ '', '' @ rest)
       (map BaseStoryElement.title
          (filter (\<lambda>c. includesOpt (Chapter.characters workingChapter) (id' c))
             existingCharacters)) []"

text \<open>The part of the tool after the working chapter is known. The directory of the
  chapters exists from here on, whatever happens next.\<close>

definition writeChapter ::
  "Env \<Rightarrow> AiChapter serviceReply \<Rightarrow> GenerateChapterParams \<Rightarrow> StoryBible \<Rightarrow> bool \<Rightarrow> Chapter
     \<Rightarrow> World \<Rightarrow> ChapterData Result \<times> World" where
  "writeChapter env reply params storyBible isNew workingChapter0 world =
     (let chaptersDir = pathJoin [projectRoot env, ''chapters''];
          world1 = world\<lparr> directories := insert chaptersDir (directories world) \<rparr>;
          names = characterNames (orEmpty (StoryBible.characters storyBible)) workingChapter0
      in (case reply of
            Rejected errorMessage \<Rightarrow> (failedTo ''generate chapter'' errorMessage, world1)
          | _ \<Rightarrow>
            (let workingChapter1 =
                   (case reply of
                      Reply aiChapter \<Rightarrow> enhanceChapter workingChapter0 aiChapter
                    | _ \<Rightarrow> workingChapter0)
             in (case (if GenerateChapterParams.generateScenes params
                       then generateSceneList env (GenerateChapterParams.sceneCount params)
                              (length (orEmpty (StoryBible.scenes storyBible))) workingChapter1
                       else Inr ([], workingChapter1)) of
                   Inl errorMessage \<Rightarrow> (failedTo ''generate chapter'' errorMessage, world1)
                 | Inr (newScenes, workingChapter) \<Rightarrow>
                     (case chapterFileName workingChapter of
                        Inl errorMessage \<Rightarrow> (failedTo ''generate chapter'' errorMessage, world1)
                      | Inr chapterFile \<Rightarrow>
                          (let chapterFilePath = pathJoin [chaptersDir, chapterFile];
                               world2 = world1\<lparr> documents :=
                                 (documents world1)
                                   (chapterFilePath \<mapsto>
                                      ChapterSheet workingChapter names
                                        (generateContent params)
                                        (GenerateChapterParams.targetWordCount params)
                                        (GenerateChapterParams.priority params)) \<rparr>;
                               storedScenes =
                                 (if GenerateChapterParams.generateScenes params
                                  then Some (orEmpty (StoryBible.scenes storyBible) @ newScenes)
                                  else StoryBible.scenes storyBible);
                               storedChapters =
                                 (if isNew
                                  then orEmpty (StoryBible.chapters storyBible) @ [workingChapter]
                                  else updateFirst (\<lambda>c. id' c = id' workingChapter)
                                         (\<lambda>c. workingChapter)
                                         (orEmpty (StoryBible.chapters storyBible)));
                               storyBible' = storyBible
                                 \<lparr> StoryBible.chapters := Some storedChapters,
                                   StoryBible.scenes := storedScenes,
                                   StoryBible.meta :=
                                     (StoryBible.meta storyBible)\<lparr> Meta.updatedAt := now env \<rparr> \<rparr>
                           in (Succeeded
                                 \<lparr> chapter' = workingChapter, ChapterData.filePath = chapterFilePath,
                                   isNewChapter = isNew,
                                   ChapterData.sceneCount =
                                     length (orEmpty (Chapter.scenes workingChapter)) \<rparr>,
                               world2\<lparr> storyBibleJson := Some storyBible' \<rparr>)))))))"

definition generateChapterDirect ::
  "Env \<Rightarrow> AiChapter serviceReply \<Rightarrow> GenerateChapterParams \<Rightarrow> World
     \<Rightarrow> ChapterData Result \<times> World" where
  "generateChapterDirect env reply params world =
     (case storyBibleJson world of
        None \<Rightarrow> (noStoryBible, world)
      | Some storyBible \<Rightarrow>
          (let existingChapters = orEmpty (StoryBible.chapters storyBible)
           in if truthyNum (GenerateChapterParams.chapterId params)
              then (case find (\<lambda>c. Some (id' c) = GenerateChapterParams.chapterId params)
                           existingChapters of
                      None \<Rightarrow>
                        (Failed (''Chapter with ID ''
                                   @ numberToString (orZero (GenerateChapterParams.chapterId params))
                                   @ '' not found.'')
                           ''Chapter not found'', world)
                    | Some workingChapter \<Rightarrow>
                        writeChapter env reply params storyBible False workingChapter world)
              else writeChapter env reply params storyBible True
                     (newChapter env params existingChapters) world))"

section \<open>Reference formulations\<close>

text \<open>
  The statements below compare the code with formulations that follow the words of the
  specification. They are not part of the program.
\<close>

text \<open>The adjacent pairs of a list, and the gap issues of the pairs that differ by more
  than 1.\<close>

definition adjacentPairs :: "'a list \<Rightarrow> ('a \<times> 'a) list" where
  "adjacentPairs xs = zip xs (tl xs)"

definition gapsOf :: "int list \<Rightarrow> Issue list" where
  "gapsOf xs =
     map (\<lambda>(a, b). chapterSequenceGap a b) (filter (\<lambda>(a, b). b - a > 1) (adjacentPairs xs))"

text \<open>The occurrences of an element after its first, in order; \<open>seen\<close> holds the
  elements to the left.\<close>

fun dupsAfter :: "'a list \<Rightarrow> 'a list \<Rightarrow> 'a list" where
  "dupsAfter seen [] = []"
| "dupsAfter seen (x # xs) = (if x \<in> set seen then [x] else []) @ dupsAfter (seen @ [x]) xs"

text \<open>The \<open>plot-thread-unresolved\<close> issues that carry a given plot thread id.\<close>

definition unresolvedFor :: "int \<Rightarrow> Issue list \<Rightarrow> Issue list" where
  "unresolvedFor k found =
     filter (\<lambda>i. issueType i = ''plot-thread-unresolved'' \<and> Issue.plotThreadId i = Some k) found"

text \<open>What every issue built by the checks satisfies: if its type is \<open>character-unlisted\<close>,
  its severity is \<open>moderate\<close>.\<close>

definition unlistedIsModerate :: "Issue \<Rightarrow> bool" where
  "unlistedIsModerate i = (issueType i \<noteq> ''character-unlisted'' \<or> severity i = ''moderate'')"

text \<open>A chapter with a truthy chapter number.\<close>

definition numbered :: "Chapter \<Rightarrow> bool" where
  "numbered c = truthyNum (Chapter.chapterNumber c)"



section \<open>Example data\<close>

text \<open>A small project: elements with the fields that a statement varies as parameters.\<close>

definition exampleChapter :: "int \<Rightarrow> int option \<Rightarrow> int list option \<Rightarrow> Chapter" where
  "exampleChapter i n cs =
     \<lparr> id' = i, type' = ''chapter'', BaseStoryElement.title = ''Arrival'',
       BaseStoryElement.description = ''The ship lands'', BaseStoryElement.status = ''draft'',
       BaseStoryElement.priority = ''medium'', createdAt = ''2025-01-01T00:00:00.000Z'',
       BaseStoryElement.updatedAt = ''2025-01-01T00:00:00.000Z'',
       Chapter.chapterNumber = n, Chapter.purpose = ''Open the story'',
       Chapter.characters = cs, Chapter.plotThreads = None, Chapter.conflicts = None,
       Chapter.plotAdvancement = None, Chapter.characterMoments = None, Chapter.pov = None,
       Chapter.scenes = None, Chapter.targetWordCount = None \<rparr>"


definition exampleCharacter :: "int \<Rightarrow> Arc option \<Rightarrow> Character" where
  "exampleCharacter i a =
     \<lparr> id' = i, type' = ''character'', BaseStoryElement.title = ''Mira'',
       BaseStoryElement.description = ''A pilot'', BaseStoryElement.status = ''draft'',
       BaseStoryElement.priority = ''medium'', createdAt = ''2025-01-01T00:00:00.000Z'',
       BaseStoryElement.updatedAt = ''2025-01-01T00:00:00.000Z'',
       Character.characterType = ''protagonist'', psychology = None,
       Character.traits = None, Character.arc = a \<rparr>"

definition exampleScene :: "int \<Rightarrow> int \<Rightarrow> int list \<Rightarrow> Scene" where
  "exampleScene i parent cs =
     \<lparr> id' = i, type' = ''scene'', BaseStoryElement.title = ''Landing'',
       BaseStoryElement.description = ''Touchdown'', BaseStoryElement.status = ''draft'',
       BaseStoryElement.priority = ''medium'', createdAt = ''2025-01-01T00:00:00.000Z'',
       BaseStoryElement.updatedAt = ''2025-01-01T00:00:00.000Z'',
       sceneType = ''dialogue'', Scene.chapterId = parent, Scene.characters = Some cs,
       setting = ''The landing pad'', Scene.purpose = ''Introduce the pilot'' \<rparr>"

definition examplePlotThread :: "int \<Rightarrow> string \<Rightarrow> string option \<Rightarrow> PlotThread" where
  "examplePlotThread i st res =
     \<lparr> id' = i, type' = ''plot-thread'', BaseStoryElement.title = ''The lost map'',
       BaseStoryElement.description = ''Who took the map'', BaseStoryElement.status = st,
       BaseStoryElement.priority = ''medium'', createdAt = ''2025-01-01T00:00:00.000Z'',
       BaseStoryElement.updatedAt = ''2025-01-01T00:00:00.000Z'',
       threadType = ''main'', resolution = res \<rparr>"


definition exampleBible :: "Character list \<Rightarrow> Chapter list \<Rightarrow> Scene list \<Rightarrow> PlotThread list \<Rightarrow> StoryBible" where
  "exampleBible chars chs scs pts =
     \<lparr> StoryBible.meta = \<lparr> Meta.title = Some ''Untitled Story'', Meta.genre = Some ''fantasy'',
                            Meta.updatedAt = ''2025-01-01T00:00:00.000Z'' \<rparr>,
       StoryBible.premise = None,
       StoryBible.characters = Some chars,
       StoryBible.chapters = Some chs,
       StoryBible.scenes = Some scs,
       StoryBible.plotThreads = Some pts,
       StoryBible.style = None \<rparr>"


definition exampleEnv :: Env where
  "exampleEnv = \<lparr> projectRoot = ''/home/writer/novel'', now = ''2025-02-02T00:00:00.000Z'',
                  nowMs = 1738454400000 \<rparr>"

definition exampleWorld :: "StoryBible option \<Rightarrow> World" where
  "exampleWorld doc = \<lparr> storyBibleJson = doc, documents = Map.empty, directories = {} \<rparr>"

definition exampleCreateParams :: "string \<Rightarrow> CreateCharacterParams" where
  "exampleCreateParams ty =
     \<lparr> name = ''Mira Voss'', CreateCharacterParams.characterType = ty,
       CreateCharacterParams.description = None, generateProfile = True, generateArc = True,
       generateVoice = True, CreateCharacterParams.priority = ''medium'' \<rparr>"

definition exampleChapterParams :: GenerateChapterParams where
  "exampleChapterParams =
     \<lparr> GenerateChapterParams.chapterId = None, GenerateChapterParams.chapterNumber = None,
       GenerateChapterParams.title = None, GenerateChapterParams.purpose = None,
       GenerateChapterParams.targetWordCount = 3000, generateScenes = True,
       GenerateChapterParams.sceneCount = 3, GenerateChapterParams.characters = None,
       GenerateChapterParams.plotThreads = None, GenerateChapterParams.conflicts = None,
       generateContent = False, GenerateChapterParams.priority = ''medium'' \<rparr>"

definition exampleStatusParams :: StatusParams where
  "exampleStatusParams =
     \<lparr> includeChapters = True, includeCharacters = True, includePlotThreads = True,
       includeWordCounts = True, includeNextSteps = True, format = ''detailed'' \<rparr>"

definition exampleNextParams :: NextChapterParams where
  "exampleNextParams =
     \<lparr> NextChapterParams.status = None, NextChapterParams.priority = None,
       includeScenes = True, characterFocus = None, plotThread = None \<rparr>"

section \<open>Properties of the timeline check\<close>

lemma indexOfFrom_notin:
  "x \<notin> set pre \<Longrightarrow> indexOfFrom i (pre @ x # suf) x = i + int (length pre)"
  by (induction pre arbitrary: i) auto

lemma indexOfFrom_in: "x \<in> set pre \<Longrightarrow> indexOfFrom i (pre @ suf) x < i + int (length pre)"
proof (induction pre arbitrary: i)
  case Nil
  then show ?case by simp
next
  case (Cons a pre)
  show ?case
  proof (cases "a = x")
    case True
    then show ?thesis by simp
  next
    case False
    with Cons.prems have "x \<in> set pre" by simp
    from Cons.IH[OF this, of "i + 1"] False show ?thesis by simp
  qed
qed

lemma filterIndexedFrom_dups:
  "filterIndexedFrom (int (length pre)) (\<lambda>num index. indexOf (pre @ suf) num \<noteq> index) suf
     = dupsAfter pre suf"
proof (induction suf arbitrary: pre)
  case Nil
  then show ?case by simp
next
  case (Cons x xs)
  have ix: "indexOf (pre @ x # xs) x \<noteq> int (length pre) \<longleftrightarrow> x \<in> set pre"
    using indexOfFrom_notin[of x pre 0 xs] indexOfFrom_in[of x pre 0 "x # xs"]
    by (auto simp: indexOf_def)
  have step: "filterIndexedFrom (int (length (pre @ [x])))
                (\<lambda>num index. indexOf ((pre @ [x]) @ xs) num \<noteq> index) xs
              = dupsAfter (pre @ [x]) xs"
    by (rule Cons.IH)
  show ?case using ix step by (simp add: add.commute)
qed

lemma duplicates_dupsAfter: "duplicates nums = dupsAfter [] nums"
  using filterIndexedFrom_dups[of "[]" nums] by (simp add: duplicates_def filterIndexed_def)

lemma count_dupsAfter:
  "count_list (dupsAfter seen xs) n = count_list xs n - (if n \<in> set seen then 0 else 1)"
  by (induction xs arbitrary: seen) auto

lemma count_duplicates: "count_list (duplicates nums) n = count_list nums n - 1"
  by (simp add: duplicates_dupsAfter count_dupsAfter)

lemma gapIssues_remdups_adj: "gapIssues xs = gapIssues (remdups_adj xs)"
proof (induction xs rule: remdups_adj.induct)
  case (3 x y xs)
  obtain zs where zs: "remdups_adj (y # xs) = y # zs"
    by (metis remdups_adj_Cons_alt)
  show ?case
  proof (cases "x = y")
    case True
    with 3 show ?thesis by simp
  next
    case False
    with 3 zs show ?thesis by simp
  qed
qed simp_all

lemma gapIssues_gapsOf: "gapIssues xs = gapsOf xs"
  by (induction xs rule: gapIssues.induct) (auto simp: gapsOf_def adjacentPairs_def)

lemma distinct_remdups_adj_sorted: "sorted xs \<Longrightarrow> distinct (remdups_adj (xs::int list))"
  by (induction xs rule: remdups_adj.induct) auto

lemma remdups_adj_sort: "remdups_adj (sort xs) = sorted_list_of_set (set (xs::int list))"
proof -
  have "sorted (remdups_adj (sort xs))" "distinct (remdups_adj (sort xs))"
    "set (remdups_adj (sort xs)) = set xs"
    by (simp_all add: distinct_remdups_adj_sorted)
  then show ?thesis
    by (metis sorted_list_of_set.idem_if_sorted_distinct)
qed

lemma gapIssues_sort: "gapIssues (sort xs) = gapsOf (sorted_list_of_set (set xs))"
  using gapIssues_remdups_adj[of "sort xs"] by (simp add: remdups_adj_sort gapIssues_gapsOf)

lemma sort_idem: "sort (sort xs) = sort (xs::int list)"
  by (simp add: sorted_sort_id)

lemma timeline_example:
  "checkTimelineConsistency
     [exampleChapter 1 (Some 1) None, exampleChapter 2 (Some 2) None,
      exampleChapter 3 (Some 2) None, exampleChapter 4 (Some 4) None]
   = [chapterSequenceGap 2 4, duplicateChapterNumber 2]"
  by (simp add: checkTimelineConsistency_def chapterNumbers_def exampleChapter_def
      truthyNum_def duplicates_def filterIndexed_def indexOf_def)

text \<open>
  Claim C2, as the code has it. For chapters numbered 1, 2, 2, 4 the timeline check yields
  one \<open>chapter-sequence-gap\<close> issue (between 2 and 4, minor) and one
  \<open>duplicate-chapter-number\<close> issue (for 2, critical). In general the check yields one gap
  issue for each adjacent pair of the ascending distinct truthy chapter numbers that differ
  by more than 1, followed by one duplicate issue for each occurrence of a chapter number
  after its first: a number that occurs \<open>k \<ge> 1\<close> times yields \<open>k - 1\<close> duplicate issues.
\<close>

theorem timeline_gaps_and_duplicates:
  "checkTimelineConsistency
     [exampleChapter 1 (Some 1) None, exampleChapter 2 (Some 2) None,
      exampleChapter 3 (Some 2) None, exampleChapter 4 (Some 4) None]
   = [chapterSequenceGap 2 4, duplicateChapterNumber 2]
   \<and> severity (chapterSequenceGap 2 4) = ''minor''
   \<and> severity (duplicateChapterNumber 2) = ''critical''
   \<and> checkTimelineConsistency chs
       = gapsOf (sorted_list_of_set (set (chapterNumbers chs)))
         @ map duplicateChapterNumber (duplicates (chapterNumbers chs))
   \<and> count_list (duplicates (chapterNumbers chs)) n = count_list (chapterNumbers chs) n - 1"
proof -
  have gaps: "gapIssues (chapterNumbers chs) = gapsOf (sorted_list_of_set (set (chapterNumbers chs)))"
    using gapIssues_sort[of "chapterNumbers chs"]
    by (simp add: chapterNumbers_def sort_idem)
  have general: "checkTimelineConsistency chs
       = gapsOf (sorted_list_of_set (set (chapterNumbers chs)))
         @ map duplicateChapterNumber (duplicates (chapterNumbers chs))"
    by (simp add: checkTimelineConsistency_def Let_def gaps)
  have sev: "severity (chapterSequenceGap 2 4) = ''minor''"
    "severity (duplicateChapterNumber 2) = ''critical''"
    by (simp_all add: chapterSequenceGap_def duplicateChapterNumber_def)
  show ?thesis
    using timeline_example general sev count_duplicates[of "chapterNumbers chs" n]
    by blast
qed

text \<open>
  Three chapters that all carry the number 2: one chapter number occurs more than once,
  and the check yields two \<open>duplicate-chapter-number\<close> issues for it, not one.
\<close>

theorem timeline_triple_number_counterexample:
  "checkTimelineConsistency
     [exampleChapter 1 (Some 2) None, exampleChapter 2 (Some 2) None,
      exampleChapter 3 (Some 2) None]
   = [duplicateChapterNumber 2, duplicateChapterNumber 2]"
  by (simp add: checkTimelineConsistency_def chapterNumbers_def exampleChapter_def
      truthyNum_def duplicates_def filterIndexed_def indexOf_def)

section \<open>Properties of the character check and of the automatic fix\<close>

lemma sceneIssues_listed:
  "\<lbrakk>Scene.chapterId S = id' C; includesOpt (Chapter.characters C) (id' K)\<rbrakk>
   \<Longrightarrow> sceneIssues K [C] S = []"
  by (simp add: sceneIssues_def)

lemma sceneIssues_unlisted:
  "\<lbrakk>Scene.chapterId S = id' C; \<not> includesOpt (Chapter.characters C) (id' K)\<rbrakk>
   \<Longrightarrow> sceneIssues K [C] S = [characterUnlisted K C]"
  by (simp add: sceneIssues_def)

lemma arcIssues_short: "length chs \<le> 1 \<Longrightarrow> arcIssues K chs = []"
  by (simp add: arcIssues_def split: option.splits)

text \<open>
  Claim C1. Take a character \<open>K\<close>, a chapter \<open>C\<close> whose list of characters is empty and a
  scene \<open>S\<close> of \<open>C\<close> in which \<open>K\<close> appears. The character check over them yields exactly
  one issue: \<open>character-unlisted\<close>, of severity moderate, with the ids of \<open>C\<close> and \<open>K\<close>.
  The automatic fix in a mode other than \<open>conservative\<close> reports that issue as fixed and
  appends the id of \<open>K\<close> to the characters of \<open>C\<close> in the story bible; the check run again
  on the fixed chapter yields no issue.
\<close>

theorem unlisted_character_found_and_fixed:
  assumes "Chapter.characters C = Some []"
    and "Scene.chapterId S = id' C"
    and "includesOpt (Scene.characters S) (id' K)"
    and "mode \<noteq> ''conservative''"
    and "StoryBible.chapters storyBible = Some [C]"
  shows "checkCharacterConsistency [K] [C] [S] = [characterUnlisted K C]
    \<and> issueType (characterUnlisted K C) = ''character-unlisted''
    \<and> severity (characterUnlisted K C) = ''moderate''
    \<and> Issue.characterId (characterUnlisted K C) = Some (id' K)
    \<and> Issue.chapterId (characterUnlisted K C) = Some (id' C)
    \<and> autoFixIssues t (checkCharacterConsistency [K] [C] [S]) storyBible mode
        = ([markFixed t mode (characterUnlisted K C)],
           storyBible\<lparr> StoryBible.chapters := Some [C\<lparr> Chapter.characters := Some [id' K] \<rparr>] \<rparr>)
    \<and> checkCharacterConsistency [K] [C\<lparr> Chapter.characters := Some [id' K] \<rparr>] [S] = []"
proof -
  have notin: "\<not> includesOpt (Chapter.characters C) (id' K)"
    using assms(1) by (simp add: includesOpt_def)
  have found: "checkCharacterConsistency [K] [C] [S] = [characterUnlisted K C]"
    using assms(2,3) notin
    by (simp add: checkCharacterConsistency_def characterIssues_def sceneIssues_unlisted
        arcIssues_short)
  have fields: "issueType (characterUnlisted K C) = ''character-unlisted''"
    "severity (characterUnlisted K C) = ''moderate''"
    "Issue.characterId (characterUnlisted K C) = Some (id' K)"
    "Issue.chapterId (characterUnlisted K C) = Some (id' C)"
    by (simp_all add: characterUnlisted_def)
  have fixd: "autoFixIssues t [characterUnlisted K C] storyBible mode
        = ([markFixed t mode (characterUnlisted K C)],
           storyBible\<lparr> StoryBible.chapters := Some [C\<lparr> Chapter.characters := Some [id' K] \<rparr>] \<rparr>)"
    using assms(1,4,5) notin fields
    by (simp add: autoFixIssues_def autoFixIssue_def pushCharacter_def)
  have listed: "includesOpt (Chapter.characters (C\<lparr> Chapter.characters := Some [id' K] \<rparr>)) (id' K)"
    by (simp add: includesOpt_def)
  have again: "checkCharacterConsistency [K] [C\<lparr> Chapter.characters := Some [id' K] \<rparr>] [S] = []"
    using assms(2,3) sceneIssues_listed[of S "C\<lparr> Chapter.characters := Some [id' K] \<rparr>" K] listed
    by (simp add: checkCharacterConsistency_def characterIssues_def arcIssues_short)
  show ?thesis using found fields fixd again by simp
qed

theorem unlisted_character_found_and_fixed_witness:
  "checkCharacterConsistency [exampleCharacter 7 None] [exampleChapter 1 (Some 1) (Some [])]
       [exampleScene 1 1 [7]]
     = [characterUnlisted (exampleCharacter 7 None) (exampleChapter 1 (Some 1) (Some []))]
   \<and> autoFixIssues ''2025-02-02T00:00:00.000Z''
        (checkCharacterConsistency [exampleCharacter 7 None]
           [exampleChapter 1 (Some 1) (Some [])] [exampleScene 1 1 [7]])
        (exampleBible [exampleCharacter 7 None] [exampleChapter 1 (Some 1) (Some [])]
           [exampleScene 1 1 [7]] [])
        ''aggressive''
     = ([markFixed ''2025-02-02T00:00:00.000Z'' ''aggressive''
           (characterUnlisted (exampleCharacter 7 None) (exampleChapter 1 (Some 1) (Some [])))],
        (exampleBible [exampleCharacter 7 None] [exampleChapter 1 (Some 1) (Some [])]
           [exampleScene 1 1 [7]] [])
          \<lparr> StoryBible.chapters :=
              Some [(exampleChapter 1 (Some 1) (Some []))
                      \<lparr> Chapter.characters := Some [id' (exampleCharacter 7 None)] \<rparr>] \<rparr>)
   \<and> checkCharacterConsistency [exampleCharacter 7 None]
       [(exampleChapter 1 (Some 1) (Some []))
          \<lparr> Chapter.characters := Some [id' (exampleCharacter 7 None)] \<rparr>]
       [exampleScene 1 1 [7]] = []"
proof -
  have h1: "Chapter.characters (exampleChapter 1 (Some 1) (Some [])) = Some []"
    by (simp add: exampleChapter_def)
  have h2: "Scene.chapterId (exampleScene 1 1 [7]) = id' (exampleChapter 1 (Some 1) (Some []))"
    by (simp add: exampleScene_def exampleChapter_def)
  have h3: "includesOpt (Scene.characters (exampleScene 1 1 [7])) (id' (exampleCharacter 7 None))"
    by (simp add: exampleScene_def exampleCharacter_def includesOpt_def)
  have h4: "''aggressive'' \<noteq> ''conservative''" by simp
  have h5: "StoryBible.chapters (exampleBible [exampleCharacter 7 None]
              [exampleChapter 1 (Some 1) (Some [])] [exampleScene 1 1 [7]] [])
            = Some [exampleChapter 1 (Some 1) (Some [])]"
    by (simp add: exampleBible_def)
  show ?thesis
    using unlisted_character_found_and_fixed[OF h1 h2 h3 h4 h5, of "''2025-02-02T00:00:00.000Z''"]
    by blast
qed

section \<open>The check of the character arcs\<close>






section \<open>Properties of the plot check\<close>

lemma unresolvedFor_append: "unresolvedFor k (xs @ ys) = unresolvedFor k xs @ unresolvedFor k ys"
  by (simp add: unresolvedFor_def)

lemma unresolvedFor_Nil: "unresolvedFor k [] = []"
  by (simp add: unresolvedFor_def)

lemma unresolvedFor_thread:
  "unresolvedFor k (plotThreadIssues chs p)
     = (if id' p = k \<and> BaseStoryElement.status p = ''completed'' \<and> \<not> truthyStr (resolution p)
        then [plotThreadUnresolved p] else [])"
  by (simp add: unresolvedFor_def plotThreadIssues_def plotThreadUnresolved_def
      plotThreadUnused_def Let_def)

lemma unresolvedFor_other_ids:
  "id' p \<notin> id' ` set pts \<Longrightarrow> unresolvedFor (id' p) (checkPlotConsistency pts chs) = []"
  by (induction pts)
    (auto simp: checkPlotConsistency_def unresolvedFor_append unresolvedFor_thread unresolvedFor_Nil)

lemma unresolvedFor_split:
  "unresolvedFor k (checkPlotConsistency (pre @ p # post) chs)
     = unresolvedFor k (checkPlotConsistency pre chs) @ unresolvedFor k (plotThreadIssues chs p)
       @ unresolvedFor k (checkPlotConsistency post chs)"
  by (simp add: checkPlotConsistency_def unresolvedFor_append)

text \<open>
  Claim C7. Among plot threads with distinct ids, a thread whose status is \<open>completed\<close>
  and whose resolution is absent (or empty) gets exactly one \<open>plot-thread-unresolved\<close>
  issue with its id, of severity moderate; once the thread carries a non-empty resolution,
  the check yields no \<open>plot-thread-unresolved\<close> issue with its id.
\<close>

theorem completed_thread_without_resolution:
  assumes "i < length pts"
    and "distinct (map id' pts)"
    and "BaseStoryElement.status (pts ! i) = ''completed''"
    and "\<not> truthyStr (resolution (pts ! i))"
    and "r \<noteq> []"
  shows "unresolvedFor (id' (pts ! i)) (checkPlotConsistency pts chs)
           = [plotThreadUnresolved (pts ! i)]
    \<and> severity (plotThreadUnresolved (pts ! i)) = ''moderate''
    \<and> Issue.plotThreadId (plotThreadUnresolved (pts ! i)) = Some (id' (pts ! i))
    \<and> unresolvedFor (id' (pts ! i))
         (checkPlotConsistency (pts[i := (pts ! i)\<lparr> resolution := Some r \<rparr>]) chs) = []"
proof -
  let ?p = "pts ! i"
  let ?q = "?p\<lparr> resolution := Some r \<rparr>"
  have split: "pts = take i pts @ ?p # drop (Suc i) pts"
    using assms(1) by (simp add: id_take_nth_drop)
  have upd: "pts[i := ?q] = take i pts @ ?q # drop (Suc i) pts"
    using assms(1) by (simp add: upd_conv_take_nth_drop)
  have "distinct (map id' (take i pts @ ?p # drop (Suc i) pts))"
    using assms(2) split by simp
  then have pre: "id' ?p \<notin> id' ` set (take i pts)"
    and post: "id' ?p \<notin> id' ` set (drop (Suc i) pts)"
    by auto
  have one: "unresolvedFor (id' ?p) (checkPlotConsistency pts chs) = [plotThreadUnresolved ?p]"
    using unresolvedFor_split[of "id' ?p" "take i pts" ?p "drop (Suc i) pts" chs] split
      unresolvedFor_other_ids[OF pre] unresolvedFor_other_ids[OF post] assms(3,4)
    by (simp add: unresolvedFor_thread unresolvedFor_Nil)
  have none: "unresolvedFor (id' ?p) (checkPlotConsistency (pts[i := ?q]) chs) = []"
    using unresolvedFor_split[of "id' ?p" "take i pts" ?q "drop (Suc i) pts" chs] upd
      unresolvedFor_other_ids[OF pre] unresolvedFor_other_ids[OF post] assms(5)
    by (simp add: unresolvedFor_thread truthyStr_def unresolvedFor_Nil)
  show ?thesis
    using one none by (simp add: plotThreadUnresolved_def)
qed

theorem completed_thread_without_resolution_witness:
  "unresolvedFor 3
     (checkPlotConsistency [examplePlotThread 2 ''draft'' None, examplePlotThread 3 ''completed'' None] [])
     = [plotThreadUnresolved (examplePlotThread 3 ''completed'' None)]
   \<and> unresolvedFor 3
       (checkPlotConsistency
          [examplePlotThread 2 ''draft'' None,
           examplePlotThread 3 ''completed'' (Some ''The map is found'')] []) = []"
proof -
  let ?pts = "[examplePlotThread 2 ''draft'' None, examplePlotThread 3 ''completed'' None]"
  have h1: "1 < length ?pts" by simp
  have h2: "distinct (map id' ?pts)" by (simp add: examplePlotThread_def)
  have h3: "BaseStoryElement.status (?pts ! 1) = ''completed''" by (simp add: examplePlotThread_def)
  have h4: "\<not> truthyStr (resolution (?pts ! 1))" by (simp add: examplePlotThread_def truthyStr_def)
  have h5: "''The map is found'' \<noteq> []" by simp
  have nth: "?pts ! 1 = examplePlotThread 3 ''completed'' None" by simp
  have idp: "id' (examplePlotThread 3 ''completed'' None) = 3" by (simp add: examplePlotThread_def)
  have upd: "(examplePlotThread 3 ''completed'' None)\<lparr> resolution := Some ''The map is found'' \<rparr>
             = examplePlotThread 3 ''completed'' (Some ''The map is found'')"
    by (simp add: examplePlotThread_def)
  show ?thesis
    using completed_thread_without_resolution[OF h1 h2 h3 h4 h5, of "[]"]
    by (simp add: idp upd)
qed

section \<open>The conservative mode of the automatic fix\<close>

lemma issue_fields:
  "issueType (characterUnlisted K C) = ''character-unlisted''"
  "severity (characterUnlisted K C) = ''moderate''"
  "Issue.characterId (characterUnlisted K C) = Some (id' K)"
  "Issue.chapterId (characterUnlisted K C) = Some (id' C)"
  "issueType (characterArcUndefined K) = ''character-arc-undefined''"
  "severity (characterArcUndefined K) = ''minor''"
  "Issue.characterId (characterArcUndefined K) = Some (id' K)"
  "Issue.chapterId (characterArcUndefined K) = None"
  "issueType (plotThreadUnused p) = ''plot-thread-unused''"
  "Issue.chapterId (plotThreadUnused p) = None"
  "issueType (plotThreadUnresolved p) = ''plot-thread-unresolved''"
  "severity (plotThreadUnresolved p) = ''moderate''"
  "Issue.plotThreadId (plotThreadUnresolved p) = Some (id' p)"
  "Issue.chapterId (plotThreadUnresolved p) = None"
  "issueType (chapterSequenceGap a b) = ''chapter-sequence-gap''"
  "severity (chapterSequenceGap a b) = ''minor''"
  "Issue.chapterId (chapterSequenceGap a b) = None"
  "issueType (duplicateChapterNumber a) = ''duplicate-chapter-number''"
  "severity (duplicateChapterNumber a) = ''critical''"
  "Issue.chapterId (duplicateChapterNumber a) = None"
  "issueType (povUndefined n) = ''pov-undefined''"
  "Issue.chapterId (povUndefined n) = None"
  by (simp_all add: characterUnlisted_def characterArcUndefined_def plotThreadUnused_def
      plotThreadUnresolved_def chapterSequenceGap_def duplicateChapterNumber_def povUndefined_def)

lemma constructors_moderate:
  "unlistedIsModerate (characterUnlisted K C)"
  "unlistedIsModerate (characterArcUndefined K)"
  "unlistedIsModerate (plotThreadUnused p)"
  "unlistedIsModerate (plotThreadUnresolved p)"
  "unlistedIsModerate (chapterSequenceGap a b)"
  "unlistedIsModerate (duplicateChapterNumber a)"
  "unlistedIsModerate (povUndefined n)"
  by (simp_all add: unlistedIsModerate_def issue_fields)

lemma sceneIssues_moderate: "\<forall>i \<in> set (sceneIssues K chs s). unlistedIsModerate i"
  by (auto simp: sceneIssues_def constructors_moderate split: option.splits)

lemma arcIssues_moderate: "\<forall>i \<in> set (arcIssues K chs). unlistedIsModerate i"
  by (auto simp: arcIssues_def constructors_moderate split: option.splits)

lemma character_moderate: "\<forall>i \<in> set (checkCharacterConsistency chars chs scs). unlistedIsModerate i"
  using sceneIssues_moderate arcIssues_moderate
  by (auto simp: checkCharacterConsistency_def characterIssues_def Let_def)

lemma plot_moderate: "\<forall>i \<in> set (checkPlotConsistency pts chs). unlistedIsModerate i"
  by (auto simp: checkPlotConsistency_def plotThreadIssues_def constructors_moderate Let_def)

lemma gapIssues_moderate: "\<forall>i \<in> set (gapIssues nums). unlistedIsModerate i"
  by (induction nums rule: gapIssues.induct) (auto simp: constructors_moderate)

lemma timeline_moderate: "\<forall>i \<in> set (checkTimelineConsistency chs). unlistedIsModerate i"
  using gapIssues_moderate
  by (auto simp: checkTimelineConsistency_def Let_def constructors_moderate)

lemma style_moderate: "\<forall>i \<in> set (checkStyleConsistency chs guide). unlistedIsModerate i"
  by (auto simp: checkStyleConsistency_def constructors_moderate Let_def split: option.splits)

lemma collectIssues_moderate: "\<forall>i \<in> set (collectIssues params sb). unlistedIsModerate i"
  using character_moderate plot_moderate timeline_moderate style_moderate
  by (auto simp: collectIssues_def Let_def)

lemma autoFixIssue_conservative:
  "unlistedIsModerate i \<Longrightarrow> autoFixIssue t ''conservative'' acc i = acc"
  by (cases acc) (auto simp: autoFixIssue_def unlistedIsModerate_def)

lemma foldl_autoFixIssue_conservative:
  "\<forall>i \<in> set found. unlistedIsModerate i
   \<Longrightarrow> foldl (autoFixIssue t ''conservative'') acc found = acc"
  by (induction found arbitrary: acc) (simp_all add: autoFixIssue_conservative)

lemma autoFixIssues_conservative:
  "autoFixIssues t (collectIssues params sb1) sb2 ''conservative'' = ([], sb2)"
  using collectIssues_moderate[of params sb1]
  by (simp add: autoFixIssues_def foldl_autoFixIssue_conservative)

lemma generateConsistencyReport_bible:
  "storyBibleJson (snd (generateConsistencyReport env found suggs fixed ps w)) = storyBibleJson w"
  by (simp add: generateConsistencyReport_def Let_def)

text \<open>
  Claim C3. Every \<open>character-unlisted\<close> issue that the checks detect has the severity
  \<open>moderate\<close>, that type is the only one with a fix, and the mode \<open>conservative\<close> passes
  only the severity \<open>minor\<close>. So the automatic fix in that mode applies no fix to the
  detected issues, whatever the story bible: it returns no fixed issue and the story
  bible unchanged. So \<open>checkConsistencyDirect\<close> with that mode leaves the story bible
  document as it was, and a successful run reports an empty list of fixed issues.
\<close>

theorem conservative_autofix_applies_no_fix:
  assumes "CheckParams.fixMode params = ''conservative''"
  shows "(\<forall>i \<in> set (collectIssues params anyBible). unlistedIsModerate i)
    \<and> autoFixIssues t (collectIssues params anyBible) storyBible ''conservative''
           = ([], storyBible)
    \<and> storyBibleJson (snd (checkConsistencyDirect env aiAnalysis params world))
        = storyBibleJson world
    \<and> (\<forall>d. fst (checkConsistencyDirect env aiAnalysis params world) = Succeeded d
          \<longrightarrow> fixedIssues d = [])"
proof (cases "storyBibleJson world")
  case None
  then show ?thesis
    using collectIssues_moderate[of params anyBible]
    by (simp add: autoFixIssues_conservative checkConsistencyDirect_def noStoryBible_def)
next
  case (Some sb)
  have fx: "autoFixIssues (now env) (collectIssues params sb) sb (CheckParams.fixMode params)
            = ([], sb)"
    using assms by (simp add: autoFixIssues_conservative)
  show ?thesis
    using Some fx collectIssues_moderate[of params anyBible]
    by (simp add: autoFixIssues_conservative checkConsistencyDirect_def Let_def
        generateConsistencyReport_def split: prod.splits)
qed

theorem conservative_autofix_applies_no_fix_witness:
  "fst (checkConsistencyDirect exampleEnv None (defaultCheckParams\<lparr> autoFix := True, generateReport := False \<rparr>)
          (exampleWorld (Some (exampleBible [exampleCharacter 7 None]
             [exampleChapter 1 (Some 1) (Some [])] [exampleScene 1 1 [7]] []))))
     = Succeeded
         \<lparr> issues = [characterUnlisted (exampleCharacter 7 None)
                       (exampleChapter 1 (Some 1) (Some []))],
           suggestions = [], fixedIssues = [],
           reportPath = None,
           stats = \<lparr> totalIssues = 1, fixedIssuesCount = 0, ConsistencyStats.chaptersAnalyzed = 1,
                     ConsistencyStats.charactersAnalyzed = 1 \<rparr> \<rparr>
   \<and> storyBibleJson (snd (checkConsistencyDirect exampleEnv None
          (defaultCheckParams\<lparr> autoFix := True, generateReport := False \<rparr>)
          (exampleWorld (Some (exampleBible [exampleCharacter 7 None]
             [exampleChapter 1 (Some 1) (Some [])] [exampleScene 1 1 [7]] [])))))
     = Some (exampleBible [exampleCharacter 7 None]
             [exampleChapter 1 (Some 1) (Some [])] [exampleScene 1 1 [7]] [])"
proof -
  let ?sb = "exampleBible [exampleCharacter 7 None]
             [exampleChapter 1 (Some 1) (Some [])] [exampleScene 1 1 [7]] []"
  let ?ps = "defaultCheckParams\<lparr> autoFix := True, generateReport := False \<rparr>"
  have h: "CheckParams.fixMode ?ps = ''conservative''"
    by (simp add: defaultCheckParams_def)
  have tc: "targetChapters ?ps ?sb = [exampleChapter 1 (Some 1) (Some [])]"
    by (simp add: targetChapters_def defaultCheckParams_def exampleBible_def orEmpty_def
        inRange_def orZero_def exampleChapter_def)
  have ch: "checkCharacterConsistency [exampleCharacter 7 None]
              [exampleChapter 1 (Some 1) (Some [])] [exampleScene 1 1 [7]]
            = [characterUnlisted (exampleCharacter 7 None) (exampleChapter 1 (Some 1) (Some []))]"
    by (simp add: checkCharacterConsistency_def characterIssues_def sceneIssues_def
        arcIssues_def exampleCharacter_def exampleChapter_def exampleScene_def includesOpt_def)
  have tl: "checkTimelineConsistency [exampleChapter 1 (Some 1) (Some [])] = []"
    by (simp add: checkTimelineConsistency_def chapterNumbers_def exampleChapter_def
        truthyNum_def duplicates_def filterIndexed_def indexOf_def)
  have found: "collectIssues ?ps ?sb
     = [characterUnlisted (exampleCharacter 7 None) (exampleChapter 1 (Some 1) (Some []))]"
    unfolding collectIssues_def tc Let_def
    by (simp add: defaultCheckParams_def exampleBible_def orEmpty_def truthyNum_def ch tl
        checkPlotConsistency_def checkStyleConsistency_def)
  have len1: "length (targetChapters ?ps ?sb) = 1"
    by (simp add: tc)
  have len2: "length (orEmpty (StoryBible.characters ?sb)) = 1"
    by (simp add: exampleBible_def orEmpty_def)
  have ps: "autoFix ?ps" "\<not> generateReport ?ps" "\<not> session ?ps"
    by (simp_all add: defaultCheckParams_def)
  have fx: "autoFixIssues (now exampleEnv) (collectIssues ?ps ?sb) ?sb ''conservative'' = ([], ?sb)"
    using conservative_autofix_applies_no_fix[OF h, where t = "now exampleEnv"
          and anyBible = ?sb and storyBible = ?sb]
    by blast
  show ?thesis
    using fx
    by (simp add: checkConsistencyDirect_def exampleWorld_def Let_def found h ps
        collectSuggestions_def len1 len2)
qed

section \<open>Chapters without a number\<close>

lemma inRange_numbered: "start \<ge> 1 \<Longrightarrow> inRange start fin c \<Longrightarrow> numbered c"
  by (auto simp: inRange_def numbered_def orZero_def truthyNum_def Let_def split: option.splits)

lemma filter_inRange_numbered:
  "start \<ge> 1 \<Longrightarrow> filter (inRange start fin) (filter numbered chs) = filter (inRange start fin) chs"
  by (induction chs) (auto dest: inRange_numbered)

lemma targetChapters_numbered:
  assumes "CheckParams.startChapter params \<ge> 1"
  shows "targetChapters params (sb\<lparr> StoryBible.chapters :=
            Some (filter numbered (orEmpty (StoryBible.chapters sb))) \<rparr>)
         = targetChapters params sb"
  using filter_inRange_numbered[OF assms]
  by (simp add: targetChapters_def orEmpty_def)

lemma find_SomeD: "find P xs = Some x \<Longrightarrow> x \<in> set xs \<and> P x"
  by (induction xs) (auto split: if_splits)

lemma sceneIssues_chapterId:
  assumes "i \<in> set (sceneIssues K chs s)"
  shows "\<exists>c \<in> set chs. Issue.chapterId i = Some (id' c)"
proof (cases "find (\<lambda>c. id' c = Scene.chapterId s) chs")
  case None
  with assms show ?thesis by (simp add: sceneIssues_def)
next
  case (Some parent)
  with assms have "i = characterUnlisted K parent"
    by (simp add: sceneIssues_def split: if_splits)
  then have "Issue.chapterId i = Some (id' parent)"
    by (simp add: issue_fields)
  moreover have "parent \<in> set chs"
    using find_SomeD[OF Some] by simp
  ultimately show ?thesis by blast
qed

lemma arcIssues_chapterId: "i \<in> set (arcIssues K chs) \<Longrightarrow> Issue.chapterId i = None"
  by (auto simp: arcIssues_def issue_fields split: option.splits if_splits)

lemma character_chapterId:
  "i \<in> set (checkCharacterConsistency chars chs scs) \<Longrightarrow> Issue.chapterId i = Some k
   \<Longrightarrow> \<exists>c \<in> set chs. id' c = k"
  using sceneIssues_chapterId arcIssues_chapterId
  by (fastforce simp: checkCharacterConsistency_def characterIssues_def Let_def)

lemma plot_chapterId: "i \<in> set (checkPlotConsistency pts chs) \<Longrightarrow> Issue.chapterId i = None"
  by (auto simp: checkPlotConsistency_def plotThreadIssues_def issue_fields Let_def
      split: if_splits)

lemma gapIssues_chapterId: "i \<in> set (gapIssues nums) \<Longrightarrow> Issue.chapterId i = None"
  by (induction nums rule: gapIssues.induct) (auto simp: issue_fields split: if_splits)

lemma timeline_chapterId: "i \<in> set (checkTimelineConsistency chs) \<Longrightarrow> Issue.chapterId i = None"
  using gapIssues_chapterId
  by (auto simp: checkTimelineConsistency_def Let_def issue_fields)

lemma style_chapterId: "i \<in> set (checkStyleConsistency chs guide) \<Longrightarrow> Issue.chapterId i = None"
  by (auto simp: checkStyleConsistency_def issue_fields Let_def split: option.splits if_splits)

lemma collectIssues_chapterId:
  assumes "i \<in> set (collectIssues params sb)" and "Issue.chapterId i = Some k"
  shows "\<exists>c \<in> set (targetChapters params sb). id' c = k"
proof -
  from assms(1) consider
      (a) chars where "i \<in> set (checkCharacterConsistency chars (targetChapters params sb)
                               (orEmpty (StoryBible.scenes sb)))"
    | (b) pts where "i \<in> set (checkPlotConsistency pts (targetChapters params sb))"
    | (c) "i \<in> set (checkTimelineConsistency (targetChapters params sb))"
    | (d) "i \<in> set (checkStyleConsistency (targetChapters params sb) (StoryBible.style sb))"
    by (auto simp: collectIssues_def Let_def split: if_splits)
  then show ?thesis
  proof cases
    case a
    then show ?thesis using character_chapterId assms(2) by blast
  next
    case b
    then show ?thesis using plot_chapterId assms(2) by fastforce
  next
    case c
    then show ?thesis using timeline_chapterId assms(2) by fastforce
  next
    case d
    then show ?thesis using style_chapterId assms(2) by fastforce
  qed
qed

lemma collectIssues_depends:
  assumes "targetChapters params sb' = targetChapters params sb"
    and "StoryBible.characters sb' = StoryBible.characters sb"
    and "StoryBible.scenes sb' = StoryBible.scenes sb"
    and "StoryBible.plotThreads sb' = StoryBible.plotThreads sb"
    and "StoryBible.style sb' = StoryBible.style sb"
  shows "collectIssues params sb' = collectIssues params sb"
  using assms by (simp add: collectIssues_def Let_def)

text \<open>
  Claim C10. With \<open>startChapter \<ge> 1\<close> every chapter in scope has a truthy chapter number:
  a chapter whose number is absent or 0 is filtered out. The issues of all four rule
  families are then the same as on the story bible without those chapters, every issue that
  names a chapter names one in scope, and a scene all of whose parent chapters (the chapters
  with its \<open>chapterId\<close>) are without a number yields no \<open>character-unlisted\<close> issue.
\<close>

theorem unnumbered_chapters_are_out_of_scope:
  assumes "CheckParams.startChapter params \<ge> 1"
  shows "(\<forall>c \<in> set (targetChapters params storyBible). numbered c)
    \<and> collectIssues params storyBible
        = collectIssues params
            (storyBible\<lparr> StoryBible.chapters :=
               Some (filter numbered (orEmpty (StoryBible.chapters storyBible))) \<rparr>)
    \<and> (\<forall>i \<in> set (collectIssues params storyBible). \<forall>k. Issue.chapterId i = Some k
          \<longrightarrow> (\<exists>c \<in> set (targetChapters params storyBible). id' c = k \<and> numbered c))
    \<and> ((\<forall>c \<in> set (orEmpty (StoryBible.chapters storyBible)).
            id' c = Scene.chapterId S \<longrightarrow> \<not> numbered c)
          \<longrightarrow> sceneIssues K (targetChapters params storyBible) S = [])"
proof -
  have scope: "\<forall>c \<in> set (targetChapters params storyBible). numbered c"
    using assms by (auto simp: targetChapters_def dest: inRange_numbered)
  have same: "collectIssues params storyBible
        = collectIssues params
            (storyBible\<lparr> StoryBible.chapters :=
               Some (filter numbered (orEmpty (StoryBible.chapters storyBible))) \<rparr>)"
    by (rule collectIssues_depends[symmetric]) (simp_all add: targetChapters_numbered[OF assms])
  have attributed: "\<forall>i \<in> set (collectIssues params storyBible). \<forall>k. Issue.chapterId i = Some k
          \<longrightarrow> (\<exists>c \<in> set (targetChapters params storyBible). id' c = k \<and> numbered c)"
    using collectIssues_chapterId scope by blast
  have scene: "sceneIssues K (targetChapters params storyBible) S = []"
    if "\<forall>c \<in> set (orEmpty (StoryBible.chapters storyBible)).
            id' c = Scene.chapterId S \<longrightarrow> \<not> numbered c"
  proof -
    have "find (\<lambda>c. id' c = Scene.chapterId S) (targetChapters params storyBible) = None"
      using that scope by (auto simp: find_None_iff targetChapters_def)
    then show ?thesis by (simp add: sceneIssues_def)
  qed
  show ?thesis using scope same attributed scene by blast
qed

theorem unnumbered_chapters_are_out_of_scope_witness:
  "targetChapters defaultCheckParams
      (exampleBible [exampleCharacter 7 None]
         [exampleChapter 1 None (Some []), exampleChapter 2 (Some 0) (Some [])]
         [exampleScene 1 1 [7]] []) = []
   \<and> collectIssues defaultCheckParams
      (exampleBible [exampleCharacter 7 None]
         [exampleChapter 1 None (Some []), exampleChapter 2 (Some 0) (Some [])]
         [exampleScene 1 1 [7]] []) = []
   \<and> sceneIssues (exampleCharacter 7 None)
       (targetChapters defaultCheckParams
          (exampleBible [exampleCharacter 7 None]
             [exampleChapter 1 None (Some []), exampleChapter 2 (Some 0) (Some [])]
             [exampleScene 1 1 [7]] []))
       (exampleScene 1 1 [7]) = []"
proof -
  let ?sb = "exampleBible [exampleCharacter 7 None]
         [exampleChapter 1 None (Some []), exampleChapter 2 (Some 0) (Some [])]
         [exampleScene 1 1 [7]] []"
  have h: "CheckParams.startChapter defaultCheckParams \<ge> 1"
    by (simp add: defaultCheckParams_def)
  have un: "\<not> numbered (exampleChapter 1 None (Some []))"
    "\<not> numbered (exampleChapter 2 (Some 0) (Some []))"
    by (simp_all add: numbered_def exampleChapter_def truthyNum_def)
  have chs: "orEmpty (StoryBible.chapters ?sb)
             = [exampleChapter 1 None (Some []), exampleChapter 2 (Some 0) (Some [])]"
    by (simp add: exampleBible_def orEmpty_def)
  have tc: "targetChapters defaultCheckParams ?sb = []"
    using unnumbered_chapters_are_out_of_scope[OF h, of ?sb] un
    by (auto simp: targetChapters_def chs filter_empty_conv)
  have sb': "?sb\<lparr> StoryBible.chapters := Some (filter numbered (orEmpty (StoryBible.chapters ?sb))) \<rparr>
             = exampleBible [exampleCharacter 7 None] [] [exampleScene 1 1 [7]] []"
    using un by (simp add: chs) (simp add: exampleBible_def)
  have empty: "collectIssues defaultCheckParams
                 (exampleBible [exampleCharacter 7 None] [] [exampleScene 1 1 [7]] []) = []"
    by (simp add: collectIssues_def targetChapters_def exampleBible_def orEmpty_def
        defaultCheckParams_def truthyNum_def checkCharacterConsistency_def characterIssues_def
        sceneIssues_def arcIssues_def exampleCharacter_def exampleScene_def includesOpt_def
        checkPlotConsistency_def checkTimelineConsistency_def chapterNumbers_def duplicates_def
        filterIndexed_def checkStyleConsistency_def)
  have ci: "collectIssues defaultCheckParams ?sb = []"
    using unnumbered_chapters_are_out_of_scope[OF h, of ?sb] sb' empty by simp
  show ?thesis
    using tc ci by (simp add: sceneIssues_def)
qed

section \<open>The tools without a story bible\<close>

text \<open>
  Claim C8. When the story bible document does not exist, each of create-character,
  generate-chapter, check-consistency, get-story-status and next-chapter returns the same
  failed result, whose message tells the caller to run parse-premise first, and leaves the
  store as it was: no file is written and no directory is created.
\<close>

theorem no_story_bible_is_reported:
  assumes "storyBibleJson world = None"
  shows \<open>createCharacterDirect env characterReply createParams world = (noStoryBible, world)
    \<and> generateChapterDirect env chapterReply chapterParams world = (noStoryBible, world)
    \<and> checkConsistencyDirect env aiAnalysis checkParams world = (noStoryBible, world)
    \<and> getStoryStatusDirect statusParams world = (noStoryBible, world)
    \<and> nextChapterDirect nextParams world = (noStoryBible, world)
    \<and> \<not> success (noStoryBible :: unit Result)
    \<and> includesStr (message (noStoryBible :: unit Result)) ''Run "parse-premise" first''
    \<and> error (noStoryBible :: unit Result) = ''Story bible not found''\<close>
proof -
  have ops: "createCharacterDirect env characterReply createParams world = (noStoryBible, world)"
    "generateChapterDirect env chapterReply chapterParams world = (noStoryBible, world)"
    "checkConsistencyDirect env aiAnalysis checkParams world = (noStoryBible, world)"
    "getStoryStatusDirect statusParams world = (noStoryBible, world)"
    "nextChapterDirect nextParams world = (noStoryBible, world)"
    using assms
    by (simp_all add: createCharacterDirect_def generateChapterDirect_def
        checkConsistencyDirect_def getStoryStatusDirect_def nextChapterDirect_def)
  have res: "\<not> success (noStoryBible :: unit Result)"
    "error (noStoryBible :: unit Result) = ''Story bible not found''"
    by (simp_all add: success_def noStoryBible_def)
  have msg: \<open>includesStr (message (noStoryBible :: unit Result)) ''Run "parse-premise" first''\<close>
    unfolding includesStr_def noStoryBible_def by code_simp
  show ?thesis using ops res msg by simp
qed

theorem no_story_bible_is_reported_witness:
  "createCharacterDirect exampleEnv (Unparseable ''not json'') (exampleCreateParams ''protagonist'')
       (exampleWorld None) = (noStoryBible, exampleWorld None)
   \<and> generateChapterDirect exampleEnv (Unparseable ''not json'') exampleChapterParams
       (exampleWorld None) = (noStoryBible, exampleWorld None)
   \<and> checkConsistencyDirect exampleEnv None defaultCheckParams (exampleWorld None)
       = (noStoryBible, exampleWorld None)
   \<and> getStoryStatusDirect exampleStatusParams (exampleWorld None)
       = (noStoryBible, exampleWorld None)
   \<and> nextChapterDirect exampleNextParams (exampleWorld None) = (noStoryBible, exampleWorld None)"
proof -
  have h: "storyBibleJson (exampleWorld None) = None"
    by (simp add: exampleWorld_def)
  show ?thesis
    using no_story_bible_is_reported[OF h, of exampleEnv "Unparseable ''not json''"
        "exampleCreateParams ''protagonist''" "Unparseable ''not json''" exampleChapterParams
        None defaultCheckParams exampleStatusParams exampleNextParams]
    by blast
qed

section \<open>The overall completion\<close>






section \<open>What createCharacterDirect stores\<close>










section \<open>Enrichment that fails\<close>




end
